theory Spec2Isabelle
  imports Complex_Main "HOL-Library.Word" "HOL-Library.Multiset"
    "HOL-Library.Product_Lexorder" "HOL-Library.List_Lexorder"
begin

text \<open>
  A shallow embedding of the fitx calendar service: the parser of the course schedule,
  the iCalendar generator, the cache store, the fetcher and the refresh cycle of the
  service, each function of the source as a function of HOL under its own name (a
  leading underscore of a Python name is dropped). Exceptions are values of the type
  \<open>error\<close>, the module variables and the two cache files are a record that the
  functions take and return, and the calls into libraries are the fields of a record
  \<open>pylib\<close>. The theorems that follow the definitions are about these functions.
\<close>

section \<open>Python values\<close>

subsection \<open>Strings\<close>

text \<open>
  A Python \<^verbatim>\<open>str\<close> is a sequence of Unicode code points and \<^verbatim>\<open>len\<close> counts code
  points, so a string is a list of natural numbers here. \<open>str\<close> turns an ASCII literal
  into such a list; the characters the source names by escape sequences are written as
  numbers: 10 is LF, 13 is CR, 32 is the space, 44 the comma, 59 the semicolon, 92 the
  backslash and 110 the letter n. Python compares strings code point by code point,
  which is the lexicographic order of lists.
\<close>

type_synonym codepoint = nat
type_synonym pystr = "codepoint list"
type_synonym byte = "8 word"

definition str :: "string \<Rightarrow> pystr" where
  "str s = map of_char s"

text \<open>\<^verbatim>\<open>s.startswith(old)\<close>, used by the models of \<^verbatim>\<open>replace\<close> and \<^verbatim>\<open>in\<close>.\<close>

definition starts_with :: "pystr \<Rightarrow> pystr \<Rightarrow> bool" where
  "starts_with old s = (take (length old) s = old)"

text \<open>
  \<^verbatim>\<open>s.replace(old, new)\<close>: the non-overlapping occurrences of \<open>old\<close> are replaced
  from the left; an empty \<open>old\<close> puts \<open>new\<close> before every code point and at the end.
\<close>

function replace :: "pystr \<Rightarrow> pystr \<Rightarrow> pystr \<Rightarrow> pystr" where
  "replace old new s =
     (if old = [] then new @ concat (map (\<lambda>c. c # new) s)
      else if s = [] then []
      else if starts_with old s then new @ replace old new (drop (length old) s)
      else hd s # replace old new (tl s))"
  by pat_completeness auto
termination
  by (relation "measure (\<lambda>(old, new, s). length s)") auto

declare replace.simps [simp del]

text \<open>\<^verbatim>\<open>k in t\<close> on strings: \<open>k\<close> occurs in \<open>t\<close> at some position.\<close>

fun contains :: "pystr \<Rightarrow> pystr \<Rightarrow> bool" where
  "contains k [] = (k = [])"
| "contains k (c # cs) = (starts_with k (c # cs) \<or> contains k cs)"

text \<open>
  \<^verbatim>\<open>s.strip()\<close> removes the leading and trailing white space, which for a Python
  string is the set of code points below.
\<close>

definition is_space :: "codepoint \<Rightarrow> bool" where
  "is_space c = ((9 \<le> c \<and> c \<le> 13) \<or> (28 \<le> c \<and> c \<le> 32) \<or> c = 133 \<or> c = 160
     \<or> c = 5760 \<or> (8192 \<le> c \<and> c \<le> 8202) \<or> c = 8232 \<or> c = 8233 \<or> c = 8239
     \<or> c = 8287 \<or> c = 12288)"

definition strip :: "pystr \<Rightarrow> pystr" where
  "strip s = rev (dropWhile is_space (rev (dropWhile is_space s)))"


text \<open>\<^verbatim>\<open>sep.join(parts)\<close>.\<close>

fun join :: "pystr \<Rightarrow> pystr list \<Rightarrow> pystr" where
  "join sep [] = []"
| "join sep [x] = x"
| "join sep (x # y # ys) = x @ sep @ join sep (y # ys)"

text \<open>The decimal text of an integer, as \<^verbatim>\<open>str(n)\<close> and an f-string give it.\<close>

function digits :: "nat \<Rightarrow> pystr" where
  "digits n = (if n < 10 then [48 + n] else digits (n div 10) @ [48 + n mod 10])"
  by pat_completeness auto
termination
  by (relation "measure id") auto

declare digits.simps [simp del]

definition decimal :: "int \<Rightarrow> pystr" where
  "decimal i = (if i < 0 then 45 # digits (nat (- i)) else digits (nat i))"

subsection \<open>JSON values\<close>

text \<open>
  What \<^verbatim>\<open>json.loads\<close> returns: \<^verbatim>\<open>None\<close>, a bool, an int, a float, a str, a list or
  a dict with string keys, in insertion order. A float is the rational it holds, or one
  of the three special values that \<^verbatim>\<open>json.loads\<close> accepts.
\<close>

datatype pyfloat = Finite rat | PosInf | NegInf | NaN

datatype json =
    JNull
  | JBool bool
  | JInt int
  | JFloat pyfloat
  | JStr pystr
  | JArr "json list"
  | JObj "(pystr \<times> json) list"

type_synonym pydict = "(pystr \<times> json) list"

text \<open>Python's truth value of such a value, which \<^verbatim>\<open>or\<close> and \<^verbatim>\<open>if\<close> test.\<close>

fun truthy :: "json \<Rightarrow> bool" where
  "truthy JNull = False"
| "truthy (JBool b) = b"
| "truthy (JInt n) = (n \<noteq> 0)"
| "truthy (JFloat f) = (f \<noteq> Finite 0)"
| "truthy (JStr s) = (s \<noteq> [])"
| "truthy (JArr xs) = (xs \<noteq> [])"
| "truthy (JObj kvs) = (kvs \<noteq> [])"

definition py_or :: "json \<Rightarrow> json \<Rightarrow> json" where
  "py_or a b = (if truthy a then a else b)"

text \<open>\<^verbatim>\<open>it.get(k)\<close>: the value under the key, \<^verbatim>\<open>None\<close> when the key is absent.\<close>

definition dict_get :: "pydict \<Rightarrow> pystr \<Rightarrow> json" where
  "dict_get it k = (case map_of it k of None \<Rightarrow> JNull | Some v \<Rightarrow> v)"

subsection \<open>Datetimes\<close>

text \<open>
  Every datetime the program keeps carries the zone Europe/Berlin. Such a value is its
  local calendar fields, counted here in microseconds since 0001-01-01T00:00:00 local
  time, and the \<^verbatim>\<open>fold\<close> flag. Python compares two datetimes of the same zone by
  their local fields alone, and adds a \<^verbatim>\<open>timedelta\<close> to the local fields, giving
  \<^verbatim>\<open>fold = 0\<close>; the sum raises \<^verbatim>\<open>OverflowError\<close> outside the years 1 to 9999.
\<close>

record datetime =
  wall :: int
  fold :: bool

datatype error =
    OverflowError
  | UnicodeEncodeError
  | RuntimeError_fetch
  | ValueError_not_decodable
  | ValueError_no_events

definition max_wall :: int where
  "max_wall = 3652059 * 86400 * 1000000"

definition add_minutes :: "datetime \<Rightarrow> int \<Rightarrow> error + datetime" where
  "add_minutes dt n =
     (let w = wall dt + n * 60000000
      in if 0 \<le> w \<and> w < max_wall then Inr \<lparr>wall = w, fold = False\<rparr>
         else Inl OverflowError)"

text \<open>
  A datetime as \<^verbatim>\<open>fromisoformat\<close> or \<^verbatim>\<open>strptime\<close> returns it, before it is brought
  to Europe/Berlin: local fields, and the UTC offset when the text gives one.
\<close>

datatype parsed = Naive int | Aware int int

text \<open>\<^verbatim>\<open>dt.replace(tzinfo=BERLIN)\<close> keeps the local fields.\<close>

fun replace_tzinfo :: "parsed \<Rightarrow> datetime" where
  "replace_tzinfo (Naive w) = \<lparr>wall = w, fold = False\<rparr>"
| "replace_tzinfo (Aware w off) = \<lparr>wall = w, fold = False\<rparr>"

fun has_tzinfo :: "parsed \<Rightarrow> bool" where
  "has_tzinfo (Naive w) = False"
| "has_tzinfo (Aware w off) = True"

subsection \<open>The libraries\<close>

text \<open>
  The program calls the Python standard library, the time zone database, an HTML parser
  and a JSON parser. Their results are parameters of the model, one field each; a call
  that raises gives \<open>None\<close>.
\<close>

record script =
  sc_type :: "pystr option"
  sc_string :: "pystr option"
  sc_text :: pystr

record pylib =
  utf8_decode :: "byte list \<Rightarrow> pystr"
  json_loads :: "pystr \<Rightarrow> json option"
  find_all_script :: "pystr \<Rightarrow> script list"
  str_lower :: "pystr \<Rightarrow> pystr"
  str_other :: "json \<Rightarrow> pystr"
  int_of_str :: "pystr \<Rightarrow> int option"
  fromisoformat :: "pystr \<Rightarrow> parsed option"
  strptime :: "pystr \<Rightarrow> pystr \<Rightarrow> parsed option"
  astimezone_berlin :: "parsed \<Rightarrow> datetime option"
  from_epoch_seconds :: "int \<Rightarrow> datetime option"
  from_epoch_millis :: "int \<Rightarrow> datetime option"
  epoch_seconds :: "datetime \<Rightarrow> int"
  strftime_local :: "datetime \<Rightarrow> pystr"
  strftime_utc :: "int \<Rightarrow> pystr"
  isoformat :: "datetime \<Rightarrow> pystr"

text \<open>
  \<^item> \<open>utf8_decode\<close> is \<^verbatim>\<open>data.decode("utf-8", errors="replace")\<close>, which never raises;
  \<^item> \<open>json_loads\<close> is \<^verbatim>\<open>json.loads\<close>;
  \<^item> \<open>find_all_script\<close> is \<^verbatim>\<open>BeautifulSoup(text, "html.parser").find_all("script")\<close>,
    each tag with its \<^verbatim>\<open>type\<close> attribute, its \<^verbatim>\<open>.string\<close> and its \<^verbatim>\<open>.text\<close>;
  \<^item> \<open>str_lower\<close> is \<^verbatim>\<open>str.lower\<close>;
  \<^item> \<open>str_other\<close> is \<^verbatim>\<open>str(v)\<close> for a float, a list or a dict;
  \<^item> \<open>int_of_str\<close> is \<^verbatim>\<open>int(s)\<close> for a string;
  \<^item> \<open>fromisoformat\<close> and \<open>strptime\<close> are the two parsers of \<^verbatim>\<open>datetime\<close>;
  \<^item> \<open>astimezone_berlin\<close> is \<^verbatim>\<open>dt.astimezone(BERLIN)\<close>;
  \<^item> \<open>from_epoch_seconds v\<close> is
    \<^verbatim>\<open>datetime.fromtimestamp(v, tz=timezone.utc).astimezone(BERLIN)\<close> and
    \<open>from_epoch_millis v\<close> the same of \<^verbatim>\<open>v / 1000.0\<close>;
  \<^item> \<open>epoch_seconds\<close> is \<^verbatim>\<open>int(dt.timestamp())\<close>;
  \<^item> \<open>strftime_local\<close> is \<^verbatim>\<open>dt.strftime("%Y%m%dT%H%M%S")\<close>, and \<open>strftime_utc\<close> is
    \<^verbatim>\<open>dt.astimezone(timezone.utc).strftime("%Y%m%dT%H%M%SZ")\<close> of the moment given in
    microseconds since the epoch;
  \<^item> \<open>isoformat\<close> is \<^verbatim>\<open>dt.isoformat()\<close>.
\<close>

text \<open>\<^verbatim>\<open>str(v)\<close> and \<^verbatim>\<open>int(v)\<close> of a JSON value.\<close>

fun py_str :: "pylib \<Rightarrow> json \<Rightarrow> pystr" where
  "py_str lib (JStr s) = s"
| "py_str lib JNull = str ''None''"
| "py_str lib (JBool b) = (if b then str ''True'' else str ''False'')"
| "py_str lib (JInt n) = decimal n"
| "py_str lib v = str_other lib v"

fun float_int :: "pyfloat \<Rightarrow> int option" where
  "float_int (Finite q) = Some (if 0 \<le> q then \<lfloor>q\<rfloor> else \<lceil>q\<rceil>)"
| "float_int f = None"

fun py_int :: "pylib \<Rightarrow> json \<Rightarrow> int option" where
  "py_int lib (JInt n) = Some n"
| "py_int lib (JBool b) = Some (if b then 1 else 0)"
| "py_int lib (JFloat f) = float_int f"
| "py_int lib (JStr s) = int_of_str lib s"
| "py_int lib v = None"

section \<open>The event model (models.py)\<close>

text \<open>
  The dataclass \<^verbatim>\<open>CourseEvent\<close>. Its fields \<^verbatim>\<open>id\<close> and \<^verbatim>\<open>end\<close> are names of
  Isabelle, so every field has the prefix \<open>ev_\<close>.
\<close>

record CourseEvent =
  ev_id :: pystr
  ev_title :: pystr
  ev_start :: datetime
  ev_end :: datetime
  ev_location :: "pystr option"
  ev_instructor :: "pystr option"
  ev_room :: "pystr option"
  ev_description :: "pystr option"

section \<open>The schedule parser (parser.py)\<close>

text \<open>
  \<^verbatim>\<open>_parse_epoch\<close>: the value as an integer, read as milliseconds above
  1,000,000,000,000 and as seconds otherwise; \<open>None\<close> where the source catches an
  exception.
\<close>

definition parse_epoch :: "pylib \<Rightarrow> json \<Rightarrow> datetime option" where
  "parse_epoch lib val =
     (case py_int lib val of
        None \<Rightarrow> None
      | Some v \<Rightarrow>
          if v > 1000000000000 then from_epoch_millis lib v else from_epoch_seconds lib v)"

text \<open>
  \<^verbatim>\<open>_parse_iso\<close>: first \<^verbatim>\<open>fromisoformat\<close> with \<^verbatim>\<open>Z\<close> written as an offset, then the
  five formats in turn. A format ending in \<^verbatim>\<open>%z\<close> converts to Europe/Berlin, the
  others take the fields as Europe/Berlin time.
\<close>

definition iso_formats :: "pystr list" where
  "iso_formats =
     [str ''%Y-%m-%dT%H:%M:%S%z'', str ''%Y-%m-%d %H:%M:%S%z'',
      str ''%Y-%m-%dT%H:%M:%S'', str ''%Y-%m-%d %H:%M:%S'', str ''%Y-%m-%d'']"

definition ends_with :: "pystr \<Rightarrow> pystr \<Rightarrow> bool" where
  "ends_with suffix s = starts_with (rev suffix) (rev s)"

fun try_formats :: "pylib \<Rightarrow> pystr \<Rightarrow> pystr list \<Rightarrow> datetime option" where
  "try_formats lib s [] = None"
| "try_formats lib s (fmt # fmts) =
     (case strptime lib s fmt of
        None \<Rightarrow> try_formats lib s fmts
      | Some dt \<Rightarrow>
          if ends_with (str ''%z'') fmt then
            (case astimezone_berlin lib dt of
               None \<Rightarrow> try_formats lib s fmts
             | Some d \<Rightarrow> Some d)
          else Some (replace_tzinfo dt))"

definition straight_iso :: "pylib \<Rightarrow> pystr \<Rightarrow> datetime option" where
  "straight_iso lib s =
     (case fromisoformat lib (replace (str ''Z'') (str ''+00:00'') s) of
        None \<Rightarrow> None
      | Some dt \<Rightarrow>
          if \<not> has_tzinfo dt then Some (replace_tzinfo dt) else astimezone_berlin lib dt)"

fun parse_iso :: "pylib \<Rightarrow> json \<Rightarrow> datetime option" where
  "parse_iso lib (JStr val) =
     (let s = strip val
      in case straight_iso lib s of
           Some d \<Rightarrow> Some d
         | None \<Rightarrow> try_formats lib s iso_formats)"
| "parse_iso lib v = None"

text \<open>\<^verbatim>\<open>parse_any_datetime\<close>; a datetime is always true for \<^verbatim>\<open>or\<close>.\<close>

definition parse_any_datetime :: "pylib \<Rightarrow> json \<Rightarrow> datetime option" where
  "parse_any_datetime lib val =
     (case parse_iso lib val of Some d \<Rightarrow> Some d | None \<Rightarrow> parse_epoch lib val)"

definition EVENT_KEYS :: "pystr list" where
  "EVENT_KEYS =
     [str ''events'', str ''appointments'', str ''schedule'', str ''courseSchedule'',
      str ''times'', str ''sessions'', str ''payload'']"

text \<open>
  \<^verbatim>\<open>extract_events_from_json\<close>. \<open>direct_hits\<close> is the first loop of \<^verbatim>\<open>walk\<close> on a
  dict, the dicts in the lists under the event keys; \<open>walk\<close> returns what the source
  appends to \<^verbatim>\<open>found\<close>, in the order of the appends.
\<close>

fun dict_items :: "json \<Rightarrow> pydict list" where
  "dict_items (JObj d) = [d]"
| "dict_items v = []"

fun hits_under :: "pydict \<Rightarrow> pystr \<Rightarrow> pydict list" where
  "hits_under obj k =
     (case map_of obj k of
        Some (JArr xs) \<Rightarrow> concat (map dict_items xs)
      | _ \<Rightarrow> [])"

definition direct_hits :: "pydict \<Rightarrow> pydict list" where
  "direct_hits obj = concat (map (hits_under obj) EVENT_KEYS)"

fun walk :: "json \<Rightarrow> pydict list" where
  "walk (JObj obj) = direct_hits obj @ concat (map (\<lambda>kv. walk (snd kv)) obj)"
| "walk (JArr xs) = concat (map walk xs)"
| "walk v = []"

definition extract_events_from_json :: "json \<Rightarrow> pydict list" where
  "extract_events_from_json data = walk data"

text \<open>\<^verbatim>\<open>_coerce_str\<close>; \<^verbatim>\<open>str\<close> of a JSON value does not raise.\<close>

fun coerce_str :: "pylib \<Rightarrow> json \<Rightarrow> pystr option" where
  "coerce_str lib JNull = None"
| "coerce_str lib (JStr s) = Some s"
| "coerce_str lib v = Some (py_str lib v)"

text \<open>
  The chains of \<^verbatim>\<open>or\<close> in \<^verbatim>\<open>coerce_event\<close>, over the field names in the order of
  the source: the first datetime that parses, the first text that is not empty (and
  \<^verbatim>\<open>None\<close> at the end of the chain).
\<close>

fun first_datetime :: "pylib \<Rightarrow> pydict \<Rightarrow> pystr list \<Rightarrow> datetime option" where
  "first_datetime lib it [] = None"
| "first_datetime lib it (k # ks) =
     (case parse_any_datetime lib (dict_get it k) of
        Some d \<Rightarrow> Some d
      | None \<Rightarrow> first_datetime lib it ks)"

fun first_text :: "pylib \<Rightarrow> pydict \<Rightarrow> pystr list \<Rightarrow> pystr option" where
  "first_text lib it [] = None"
| "first_text lib it (k # ks) =
     (case coerce_str lib (dict_get it k) of
        None \<Rightarrow> first_text lib it ks
      | Some s \<Rightarrow> if s \<noteq> [] then Some s else first_text lib it ks)"

text \<open>
  The loop over the duration keys: the first value that is not \<^verbatim>\<open>None\<close> and that
  \<^verbatim>\<open>int\<close> accepts ends the loop; \<open>None\<close> is the \<^verbatim>\<open>dur_min = None\<close> of the source.
\<close>

fun find_duration :: "pylib \<Rightarrow> pydict \<Rightarrow> pystr list \<Rightarrow> int option" where
  "find_duration lib it [] = None"
| "find_duration lib it (dk # dks) =
     (let v = dict_get it dk
      in if v \<noteq> JNull then
           (case py_int lib v of
              Some n \<Rightarrow> Some n
            | None \<Rightarrow> find_duration lib it dks)
         else find_duration lib it dks)"

definition start_keys :: "pystr list" where
  "start_keys =
     [str ''start'', str ''startTime'', str ''startDate'', str ''startDateTime'',
      str ''begin'', str ''from'', str ''date'', str ''dateStart'']"

definition end_keys :: "pystr list" where
  "end_keys =
     [str ''end'', str ''endTime'', str ''endDate'', str ''endDateTime'', str ''to'',
      str ''dateEnd'']"

definition duration_keys :: "pystr list" where
  "duration_keys = [str ''durationMinutes'', str ''duration'', str ''length'', str ''minutes'']"

text \<open>
  The end of an event: the first end field that parses; otherwise the start plus the
  duration when \<^verbatim>\<open>dur_min\<close> is true, plus 60 minutes when it is not.
\<close>

definition event_end :: "pylib \<Rightarrow> pydict \<Rightarrow> datetime \<Rightarrow> error + datetime" where
  "event_end lib it start =
     (case first_datetime lib it end_keys of
        Some e \<Rightarrow> Inr e
      | None \<Rightarrow>
          (case find_duration lib it duration_keys of
             Some dur_min \<Rightarrow>
               if dur_min \<noteq> 0 then add_minutes start dur_min else add_minutes start 60
           | None \<Rightarrow> add_minutes start 60))"

text \<open>
  \<^verbatim>\<open>coerce_event\<close>: \<open>Inr None\<close> is the \<^verbatim>\<open>return None\<close> of a record without a start,
  \<open>Inl\<close> the \<^verbatim>\<open>OverflowError\<close> of the addition, which the function does not catch.
\<close>

definition coerce_event :: "pylib \<Rightarrow> pydict \<Rightarrow> error + CourseEvent option" where
  "coerce_event lib it =
     (let title =
            py_or (dict_get it (str ''title''))
              (py_or (dict_get it (str ''name''))
                (py_or (dict_get it (str ''courseName''))
                  (py_or (dict_get it (str ''course'')) (JStr (str ''FitX Course'')))))
      in case first_datetime lib it start_keys of
           None \<Rightarrow> Inr None
         | Some start \<Rightarrow>
             (case event_end lib it start of
                Inl e \<Rightarrow> Inl e
              | Inr end' \<Rightarrow>
                  (let cid =
                         py_or (dict_get it (str ''id''))
                           (py_or (dict_get it (str ''eventId''))
                             (py_or (dict_get it (str ''uid''))
                               (JStr (py_str lib title @ str ''-''
                                  @ decimal (epoch_seconds lib start)))))
                   in Inr (Some
                        \<lparr>ev_id = py_str lib cid,
                         ev_title = py_str lib title,
                         ev_start = start,
                         ev_end = end',
                         ev_location =
                           first_text lib it [str ''location'', str ''place'', str ''studio''],
                         ev_instructor =
                           first_text lib it [str ''instructor'', str ''trainer'', str ''coach''],
                         ev_room = first_text lib it [str ''room'', str ''hall''],
                         ev_description =
                           first_text lib it [str ''description'', str ''details'']\<rparr>))))"

text \<open>
  \<^verbatim>\<open>_build_events_from_obj\<close>. The dict \<^verbatim>\<open>uniq\<close> is an association list in insertion
  order: a new key goes to the end, a key that is there keeps its place and takes the new
  value. \<^verbatim>\<open>sorted\<close> is stable; so is the insertion sort \<open>sort_key\<close>.
\<close>

fun coerce_all :: "pylib \<Rightarrow> pydict list \<Rightarrow> error + CourseEvent list" where
  "coerce_all lib [] = Inr []"
| "coerce_all lib (it # its) =
     (case coerce_event lib it of
        Inl e \<Rightarrow> Inl e
      | Inr None \<Rightarrow> coerce_all lib its
      | Inr (Some ev) \<Rightarrow>
          (case coerce_all lib its of Inl e \<Rightarrow> Inl e | Inr evs \<Rightarrow> Inr (ev # evs)))"

fun dict_set :: "('k \<times> 'v) list \<Rightarrow> 'k \<Rightarrow> 'v \<Rightarrow> ('k \<times> 'v) list" where
  "dict_set [] k v = [(k, v)]"
| "dict_set ((k', v') # d) k v =
     (if k' = k then (k, v) # d else (k', v') # dict_set d k v)"

definition dedup_key :: "pylib \<Rightarrow> CourseEvent \<Rightarrow> pystr \<times> int \<times> int" where
  "dedup_key lib e = (ev_id e, epoch_seconds lib (ev_start e), epoch_seconds lib (ev_end e))"

definition sort_by :: "CourseEvent \<Rightarrow> int \<times> pystr" where
  "sort_by e = (wall (ev_start e), ev_title e)"

definition uniq_of :: "pylib \<Rightarrow> CourseEvent list \<Rightarrow> ((pystr \<times> int \<times> int) \<times> CourseEvent) list" where
  "uniq_of lib events = foldl (\<lambda>uniq e. dict_set uniq (dedup_key lib e) e) [] events"

definition dedup_sort :: "pylib \<Rightarrow> CourseEvent list \<Rightarrow> CourseEvent list" where
  "dedup_sort lib events = sort_key sort_by (map snd (uniq_of lib events))"

definition build_events_from_obj :: "pylib \<Rightarrow> json \<Rightarrow> error + CourseEvent list" where
  "build_events_from_obj lib obj =
     (case coerce_all lib (extract_events_from_json obj) of
        Inl e \<Rightarrow> Inl e
      | Inr events \<Rightarrow> Inr (dedup_sort lib events))"

text \<open>
  The regular expression \<^verbatim>\<open>(\{.*?\}|\[.*?\])\<close> with \<^verbatim>\<open>re.DOTALL\<close>, as
  \<^verbatim>\<open>re.finditer\<close> applies it: at an opening brace the match runs to the next closing
  brace, at an opening bracket to the next closing bracket, and the search goes on
  behind the match; an opener with no closer behind it matches nothing. 123 and 125 are
  the braces, 91 and 93 the brackets.
\<close>

fun find_close :: "codepoint \<Rightarrow> pystr \<Rightarrow> (pystr \<times> pystr) option" where
  "find_close q [] = None"
| "find_close q (c # cs) =
     (if c = q then Some ([c], cs)
      else (case find_close q cs of
              None \<Rightarrow> None
            | Some (body, rest) \<Rightarrow> Some (c # body, rest)))"

function finditer :: "pystr \<Rightarrow> pystr list" where
  "finditer [] = []"
| "finditer (c # cs) =
     (if c = 123 then
        (case find_close 125 cs of
           Some (body, rest) \<Rightarrow> (c # body) # finditer rest
         | None \<Rightarrow> finditer cs)
      else if c = 91 then
        (case find_close 93 cs of
           Some (body, rest) \<Rightarrow> (c # body) # finditer rest
         | None \<Rightarrow> finditer cs)
      else finditer cs)"
  by pat_completeness auto
termination
proof -
  have shorter: "length rest < length cs" if "find_close q cs = Some (body, rest)"
    for q cs body rest
    using that by (induction cs arbitrary: body rest) (auto split: if_splits option.splits)
  show ?thesis
    by (relation "measure length") (auto dest: shorter)
qed

text \<open>
  \<^verbatim>\<open>parse_schedule\<close>, in the four steps of the source. \<open>direct_json\<close> is the first
  \<^verbatim>\<open>try\<close>: its \<^verbatim>\<open>return\<close> hands back whatever \<^verbatim>\<open>_build_events_from_obj\<close> returns,
  and any exception leads on to the HTML steps. \<open>typed_scripts\<close> and \<open>try_candidates\<close>
  are the two loops that return the first list of events that is not empty.
\<close>

definition or_empty :: "pystr option \<Rightarrow> pystr" where
  "or_empty s = (case s of None \<Rightarrow> [] | Some t \<Rightarrow> t)"

definition looks_like_json :: "pylib \<Rightarrow> byte list \<Rightarrow> pystr option \<Rightarrow> bool" where
  "looks_like_json lib data content_type =
     (let ct = str_lower lib (or_empty content_type)
      in contains (str ''application/json'') ct
         \<or> take 1 data = [0x7B] \<or> take 1 data = [0x5B])"

definition direct_json :: "pylib \<Rightarrow> byte list \<Rightarrow> CourseEvent list option" where
  "direct_json lib data =
     (case json_loads lib (utf8_decode lib data) of
        None \<Rightarrow> None
      | Some obj \<Rightarrow>
          (case build_events_from_obj lib obj of
             Inl e \<Rightarrow> None
           | Inr events \<Rightarrow> Some events))"

text \<open>\<^verbatim>\<open>sc.string or sc.text or ""\<close>.\<close>

definition script_content :: "script \<Rightarrow> pystr" where
  "script_content sc =
     (case sc_string sc of
        Some s \<Rightarrow> if s \<noteq> [] then s else sc_text sc
      | None \<Rightarrow> sc_text sc)"

definition events_of_text :: "pylib \<Rightarrow> pystr \<Rightarrow> CourseEvent list option" where
  "events_of_text lib content =
     (case json_loads lib content of
        None \<Rightarrow> None
      | Some obj \<Rightarrow>
          (case build_events_from_obj lib obj of
             Inl e \<Rightarrow> None
           | Inr events \<Rightarrow> if events \<noteq> [] then Some events else None))"

fun typed_scripts :: "pylib \<Rightarrow> script list \<Rightarrow> CourseEvent list option" where
  "typed_scripts lib [] = None"
| "typed_scripts lib (sc # scs) =
     (let t = str_lower lib (or_empty (sc_type sc))
      in if contains (str ''json'') t then
           (let content = strip (script_content sc)
            in if content = [] then typed_scripts lib scs
               else (case events_of_text lib content of
                       Some events \<Rightarrow> Some events
                     | None \<Rightarrow> typed_scripts lib scs))
         else typed_scripts lib scs)"

fun script_candidates :: "pystr list \<Rightarrow> pystr list" where
  "script_candidates [] = []"
| "script_candidates (s # ss) =
     (let s' = strip s
      in if s' = [] then script_candidates ss
         else filter (\<lambda>chunk. \<not> length chunk < 10) (finditer s') @ script_candidates ss)"

fun try_candidates :: "pylib \<Rightarrow> pystr list \<Rightarrow> CourseEvent list option" where
  "try_candidates lib [] = None"
| "try_candidates lib (c # cs) =
     (case events_of_text lib c of
        Some events \<Rightarrow> Some events
      | None \<Rightarrow> try_candidates lib cs)"

text \<open>
  \<^verbatim>\<open>candidates.sort(key=len, reverse=True)\<close> keeps candidates of one length in their
  order, as the stable sort by the negated length does.
\<close>

definition longest_first :: "pystr list \<Rightarrow> pystr list" where
  "longest_first candidates = sort_key (\<lambda>c. - int (length c)) candidates"

definition parse_html :: "pylib \<Rightarrow> byte list \<Rightarrow> error + CourseEvent list" where
  "parse_html lib data =
     (let text = utf8_decode lib data
      in if text = [] then Inl ValueError_not_decodable
         else
           (let soup = find_all_script lib text
            in case typed_scripts lib soup of
                 Some events \<Rightarrow> Inr events
               | None \<Rightarrow>
                   (let candidates = longest_first (script_candidates (map script_content soup))
                    in case try_candidates lib (take 50 candidates) of
                         Some events \<Rightarrow> Inr events
                       | None \<Rightarrow> Inl ValueError_no_events)))"

definition parse_schedule :: "pylib \<Rightarrow> byte list \<Rightarrow> pystr option \<Rightarrow> error + CourseEvent list" where
  "parse_schedule lib data content_type =
     (if looks_like_json lib data content_type then
        (case direct_json lib data of
           Some events \<Rightarrow> Inr events
         | None \<Rightarrow> parse_html lib data)
      else parse_html lib data)"

section \<open>The calendar generator (ics.py)\<close>

text \<open>\<^verbatim>\<open>_escape_ics\<close>: the five replacements, in the order of the source.\<close>

definition escape_ics :: "pystr \<Rightarrow> pystr" where
  "escape_ics text =
     replace [10] [92, 110]
       (replace [13, 10] [92, 110]
         (replace [44] [92, 44]
           (replace [59] [92, 59]
             (replace [92] [92, 92] text))))"

text \<open>
  \<^verbatim>\<open>_fold_line\<close>: while the line is longer than 75, its first 75 code points are put
  out and a space goes before the rest.
\<close>

function fold_line :: "pystr \<Rightarrow> pystr list" where
  "fold_line line =
     (if length line > 75 then take 75 line # fold_line (32 # drop 75 line)
      else [line])"
  by pat_completeness auto
termination
  by (relation "measure length") auto

declare fold_line.simps [simp del]

definition vtz_europe_berlin :: "pystr list" where
  "vtz_europe_berlin =
     [str ''BEGIN:VTIMEZONE'',
      str ''TZID:Europe/Berlin'',
      str ''X-LIC-LOCATION:Europe/Berlin'',
      str ''BEGIN:DAYLIGHT'',
      str ''TZOFFSETFROM:+0100'',
      str ''TZOFFSETTO:+0200'',
      str ''TZNAME:CEST'',
      str ''DTSTART:19700329T020000'',
      str ''RRULE:FREQ=YEARLY;BYMONTH=3;BYDAY=-1SU'',
      str ''END:DAYLIGHT'',
      str ''BEGIN:STANDARD'',
      str ''TZOFFSETFROM:+0200'',
      str ''TZOFFSETTO:+0100'',
      str ''TZNAME:CET'',
      str ''DTSTART:19701025T030000'',
      str ''RRULE:FREQ=YEARLY;BYMONTH=10;BYDAY=-1SU'',
      str ''END:STANDARD'',
      str ''END:VTIMEZONE'']"

definition fmt_dt_utc :: "pylib \<Rightarrow> int \<Rightarrow> pystr" where
  "fmt_dt_utc lib dt = strftime_utc lib dt"

definition fmt_local :: "pylib \<Rightarrow> datetime \<Rightarrow> pystr" where
  "fmt_local lib dt = strftime_local lib dt"

text \<open>
  An optional text is true when it is there and not empty; \<open>if_present label s\<close> is
  then the one line \<open>label\<close> followed by the text, and no line otherwise.
\<close>

definition if_present :: "pystr \<Rightarrow> pystr option \<Rightarrow> pystr list" where
  "if_present label s =
     (case s of None \<Rightarrow> [] | Some t \<Rightarrow> if t \<noteq> [] then [label @ t] else [])"

definition desc_parts :: "CourseEvent \<Rightarrow> pystr list" where
  "desc_parts ev =
     if_present (str ''Instructor: '') (ev_instructor ev)
     @ if_present (str ''Room: '') (ev_room ev)
     @ if_present [] (ev_description ev)"

text \<open>The lines that one pass of the loop over the events appends.\<close>

definition vevent_lines :: "pylib \<Rightarrow> int \<Rightarrow> int \<Rightarrow> CourseEvent \<Rightarrow> pystr list" where
  "vevent_lines lib course_id now ev =
     [str ''BEGIN:VEVENT'',
      str ''UID:fitx-'' @ decimal course_id @ str ''-'' @ escape_ics (ev_id ev) @ str ''@local'',
      str ''DTSTAMP:'' @ fmt_dt_utc lib now,
      str ''DTSTART;TZID=Europe/Berlin:'' @ fmt_local lib (ev_start ev),
      str ''DTEND;TZID=Europe/Berlin:'' @ fmt_local lib (ev_end ev),
      str ''SUMMARY:'' @ escape_ics (ev_title ev)]
     @ (if desc_parts ev \<noteq> []
        then [str ''DESCRIPTION:'' @ escape_ics (join [10] (desc_parts ev))] else [])
     @ (case ev_location ev of
          None \<Rightarrow> []
        | Some loc \<Rightarrow> if loc \<noteq> [] then [str ''LOCATION:'' @ escape_ics loc] else [])
     @ [str ''END:VEVENT'']"

text \<open>
  \<^verbatim>\<open>generate_ics\<close>; \<open>now\<close> is the moment that \<^verbatim>\<open>datetime.now\<close> returns, in
  microseconds since the epoch. \<open>ics_lines\<close> is the list \<^verbatim>\<open>lines\<close> before the
  folding, \<open>folded_lines\<close> the list \<^verbatim>\<open>folded\<close>.
\<close>

definition ics_lines :: "pylib \<Rightarrow> int \<Rightarrow> int \<Rightarrow> CourseEvent list \<Rightarrow> pystr list" where
  "ics_lines lib course_id now events =
     (let lines =
            [str ''BEGIN:VCALENDAR'', str ''PRODID:-//fitx-local//ics//EN'', str ''VERSION:2.0'',
             str ''CALSCALE:GREGORIAN'', str ''METHOD:PUBLISH'']
            @ vtz_europe_berlin;
          sorted_events = sort_key sort_by events;
          lines = foldl (\<lambda>lines ev. lines @ vevent_lines lib course_id now ev) lines sorted_events
      in lines @ [str ''END:VCALENDAR''])"

definition folded_lines :: "pystr list \<Rightarrow> pystr list" where
  "folded_lines lines = foldl (\<lambda>folded ln. folded @ fold_line ln) [] lines"

definition generate_ics :: "pylib \<Rightarrow> int \<Rightarrow> int \<Rightarrow> CourseEvent list \<Rightarrow> pystr" where
  "generate_ics lib course_id now events =
     join [13, 10] (folded_lines (ics_lines lib course_id now events)) @ [13, 10]"

section \<open>The cache store (store.py)\<close>

text \<open>
  The two files of the data directory. \<^verbatim>\<open>save_cache\<close> writes the UTF-8 encoding of a
  text; a file that holds such an encoding is given by the text itself (strict decoding
  returns it), and the JSON file by the list of dicts that \<^verbatim>\<open>json.dumps\<close> wrote
  (\<^verbatim>\<open>json.loads\<close> returns it). \<open>Corrupt\<close> is a file that does not decode or parse.
  \<^verbatim>\<open>atomic_write\<close> replaces the file as a whole.
\<close>

datatype 'a content = Missing | Corrupt | Holds 'a

record saved =
  s_id :: pystr
  s_title :: pystr
  s_start :: pystr
  s_end :: pystr
  s_location :: "pystr option"
  s_instructor :: "pystr option"
  s_room :: "pystr option"
  s_description :: "pystr option"

record disk =
  CACHE_JSON :: "saved list content"
  CACHE_ICS :: "pystr content"

text \<open>
  \<^verbatim>\<open>s.encode("utf-8")\<close> raises \<^verbatim>\<open>UnicodeEncodeError\<close> on a surrogate code point
  (55296 to 57343) and on nothing else.
\<close>

definition encodable :: "pystr \<Rightarrow> bool" where
  "encodable s = list_all (\<lambda>c. \<not> (55296 \<le> c \<and> c \<le> 57343)) s"

definition encodable_opt :: "pystr option \<Rightarrow> bool" where
  "encodable_opt s = (case s of None \<Rightarrow> True | Some t \<Rightarrow> encodable t)"

definition encodable_saved :: "saved \<Rightarrow> bool" where
  "encodable_saved r =
     (encodable (s_id r) \<and> encodable (s_title r) \<and> encodable (s_start r)
      \<and> encodable (s_end r) \<and> encodable_opt (s_location r)
      \<and> encodable_opt (s_instructor r) \<and> encodable_opt (s_room r)
      \<and> encodable_opt (s_description r))"

definition json_payload :: "pylib \<Rightarrow> CourseEvent list \<Rightarrow> saved list" where
  "json_payload lib events =
     map (\<lambda>e. \<lparr>s_id = ev_id e, s_title = ev_title e,
               s_start = isoformat lib (ev_start e), s_end = isoformat lib (ev_end e),
               s_location = ev_location e, s_instructor = ev_instructor e,
               s_room = ev_room e, s_description = ev_description e\<rparr>) events"

text \<open>
  \<^verbatim>\<open>save_cache\<close> returns the disk it leaves and the exception it raised, if any: the
  JSON file is written first, so it stays written when the calendar text does not
  encode.
\<close>

definition save_cache :: "pylib \<Rightarrow> disk \<Rightarrow> CourseEvent list \<Rightarrow> pystr \<Rightarrow> disk \<times> error option" where
  "save_cache lib d events ics_text =
     (let payload = json_payload lib events
      in if \<not> list_all encodable_saved payload then (d, Some UnicodeEncodeError)
         else
           (let d1 = d\<lparr>CACHE_JSON := Holds payload\<rparr>
            in if \<not> encodable ics_text then (d1, Some UnicodeEncodeError)
               else (d1\<lparr>CACHE_ICS := Holds ics_text\<rparr>, None)))"

text \<open>
  \<^verbatim>\<open>Path.read_text\<close> opens the file in text mode with the default \<^verbatim>\<open>newline=None\<close>:
  after decoding, every CR LF and every lone CR is given as LF.
\<close>

fun universal_newlines :: "pystr \<Rightarrow> pystr" where
  "universal_newlines [] = []"
| "universal_newlines [c] = (if c = 13 then [10] else [c])"
| "universal_newlines (c # d # cs) =
     (if c = 13 \<and> d = 10 then 10 # universal_newlines cs
      else if c = 13 then 10 # universal_newlines (d # cs)
      else c # universal_newlines (d # cs))"

definition read_text :: "pystr content \<Rightarrow> pystr option" where
  "read_text f = (case f of Holds t \<Rightarrow> Some (universal_newlines t) | _ \<Rightarrow> None)"

text \<open>
  The loop of \<^verbatim>\<open>load_cache\<close>: a timestamp is read by \<^verbatim>\<open>fromisoformat\<close> and brought
  to Europe/Berlin; an exception at any record leaves no events at all.
\<close>

definition load_datetime :: "pylib \<Rightarrow> pystr \<Rightarrow> datetime option" where
  "load_datetime lib s =
     (case fromisoformat lib s of None \<Rightarrow> None | Some dt \<Rightarrow> astimezone_berlin lib dt)"

fun load_events :: "pylib \<Rightarrow> saved list \<Rightarrow> CourseEvent list option" where
  "load_events lib [] = Some []"
| "load_events lib (it # raw) =
     (case load_datetime lib (s_start it) of
        None \<Rightarrow> None
      | Some start \<Rightarrow>
          (case load_datetime lib (s_end it) of
             None \<Rightarrow> None
           | Some end' \<Rightarrow>
               (case load_events lib raw of
                  None \<Rightarrow> None
                | Some events \<Rightarrow>
                    Some (\<lparr>ev_id = s_id it, ev_title = s_title it, ev_start = start,
                           ev_end = end', ev_location = s_location it,
                           ev_instructor = s_instructor it, ev_room = s_room it,
                           ev_description = s_description it\<rparr> # events))))"

definition load_cache :: "pylib \<Rightarrow> disk \<Rightarrow> pystr option \<times> CourseEvent list option" where
  "load_cache lib d =
     (let ics_text = read_text (CACHE_ICS d);
          events = (case CACHE_JSON d of Holds raw \<Rightarrow> load_events lib raw | _ \<Rightarrow> None)
      in (ics_text, events))"

section \<open>The fetcher (fetcher.py)\<close>

text \<open>
  \<^verbatim>\<open>fetch_course_page\<close>: \<open>client_get n\<close> is what the \<open>n\<close>-th call of \<^verbatim>\<open>client.get\<close>
  brings, the payload and the content type or \<open>None\<close> for an exception; the loop makes
  three attempts.
\<close>

fun fetch_attempts :: "(nat \<Rightarrow> (byte list \<times> pystr option) option) \<Rightarrow> nat list
    \<Rightarrow> error + byte list \<times> pystr option" where
  "fetch_attempts client_get [] = Inl RuntimeError_fetch"
| "fetch_attempts client_get (attempt # attempts) =
     (case client_get attempt of
        Some resp \<Rightarrow> Inr resp
      | None \<Rightarrow> fetch_attempts client_get attempts)"

definition fetch_course_page :: "(nat \<Rightarrow> (byte list \<times> pystr option) option)
    \<Rightarrow> error + byte list \<times> pystr option" where
  "fetch_course_page client_get = fetch_attempts client_get [0, 1, 2]"

section \<open>The service (main.py)\<close>



text \<open>
  The state of the service: the two module variables and the data directory. The
  configuration is the course and the parsed list \<^verbatim>\<open>EXCLUDE_KEYWORDS\<close>.
\<close>

record service =
  cache_ics :: "pystr option"
  cache_events :: "CourseEvent list option"
  files :: disk

record config =
  FITX_COURSE_ID :: int
  EXCLUDE_KEYWORDS :: "pystr list"

text \<open>The filter of \<^verbatim>\<open>_refresh_once\<close>, on the events with their lower-cased titles.\<close>

definition any_keyword_in :: "pystr list \<Rightarrow> pystr \<Rightarrow> bool" where
  "any_keyword_in keywords t = list_ex (\<lambda>k. contains k t) keywords"

definition filter_events :: "pylib \<Rightarrow> pystr list \<Rightarrow> CourseEvent list \<Rightarrow> CourseEvent list" where
  "filter_events lib keywords events =
     (if keywords \<noteq> [] then
        (let lowered = map (\<lambda>e. (e, str_lower lib (ev_title e))) events
         in map fst (filter (\<lambda>(e, t). \<not> any_keyword_in keywords t) lowered))
      else events)"

text \<open>
  \<^verbatim>\<open>_update_cache\<close>: the files first, then the two variables; an exception of
  \<^verbatim>\<open>save_cache\<close> leaves the variables as they are.
\<close>

definition update_cache :: "pylib \<Rightarrow> service \<Rightarrow> CourseEvent list \<Rightarrow> pystr \<Rightarrow> service" where
  "update_cache lib st events ics_text =
     (case save_cache lib (files st) events ics_text of
        (d, Some e) \<Rightarrow> st\<lparr>files := d\<rparr>
      | (d, None) \<Rightarrow> \<lparr>cache_ics = Some ics_text, cache_events = Some events, files = d\<rparr>)"

text \<open>
  \<^verbatim>\<open>_refresh_once\<close>: every exception is caught and logged, so the function returns the
  state it leaves.
\<close>

definition refresh_once :: "pylib \<Rightarrow> config \<Rightarrow> (nat \<Rightarrow> (byte list \<times> pystr option) option)
    \<Rightarrow> int \<Rightarrow> service \<Rightarrow> service" where
  "refresh_once lib cfg client_get now st =
     (case fetch_course_page client_get of
        Inl e \<Rightarrow> st
      | Inr (data, content_type) \<Rightarrow>
          (case parse_schedule lib data content_type of
             Inl e \<Rightarrow> st
           | Inr events \<Rightarrow>
               (let events = filter_events lib (EXCLUDE_KEYWORDS cfg) events;
                    ics_text = generate_ics lib (FITX_COURSE_ID cfg) now events
                in update_cache lib st events ics_text)))"

text \<open>The body that \<^verbatim>\<open>GET /calendar.ics\<close> returns at the moment \<open>now\<close>.\<close>

definition calendar :: "pylib \<Rightarrow> config \<Rightarrow> int \<Rightarrow> service \<Rightarrow> pystr" where
  "calendar lib cfg now st =
     (let current_events = (case cache_events st of None \<Rightarrow> [] | Some evs \<Rightarrow> evs);
          empty = generate_ics lib (FITX_COURSE_ID cfg) now current_events
      in case cache_ics st of
           None \<Rightarrow> empty
         | Some current_ics \<Rightarrow> if current_ics \<noteq> [] then current_ics else empty)"

section \<open>An instance of the libraries\<close>

text \<open>
  For evaluating the model on examples: the library calls on ASCII texts, with the JSON
  texts of the example and their values in a table, a page without script tags, and the
  time zone at its summer offset of two hours (62135596800 seconds lie between
  0001-01-01 and the epoch). The formatting functions give the local microseconds as a
  decimal number.
\<close>

definition ascii_lower :: "codepoint \<Rightarrow> codepoint" where
  "ascii_lower c = (if 65 \<le> c \<and> c \<le> 90 then c + 32 else c)"

definition example_lib :: "(pystr \<times> json) list \<Rightarrow> pylib" where
  "example_lib texts =
     \<lparr>utf8_decode = map (\<lambda>b. if b < 0x80 then unat b else 65533),
      json_loads = map_of texts,
      find_all_script = (\<lambda>t. []),
      str_lower = map ascii_lower,
      str_other = (\<lambda>v. []),
      int_of_str = (\<lambda>s. None),
      fromisoformat = (\<lambda>s. None),
      strptime = (\<lambda>s fmt. None),
      astimezone_berlin = (\<lambda>dt. None),
      from_epoch_seconds = (\<lambda>v. Some \<lparr>wall = (v + 62135604000) * 1000000, fold = False\<rparr>),
      from_epoch_millis = (\<lambda>v. Some \<lparr>wall = v * 1000 + 62135604000 * 1000000, fold = False\<rparr>),
      epoch_seconds = (\<lambda>dt. wall dt div 1000000 - 62135604000),
      strftime_local = (\<lambda>dt. decimal (wall dt)),
      strftime_utc = decimal,
      isoformat = (\<lambda>dt. decimal (wall dt))\<rparr>"

text \<open>An event of one hour, for the examples.\<close>

definition example_event :: "pystr \<Rightarrow> pystr \<Rightarrow> int \<Rightarrow> pystr option \<Rightarrow> CourseEvent" where
  "example_event i t w r =
     \<lparr>ev_id = i, ev_title = t, ev_start = \<lparr>wall = w, fold = False\<rparr>,
      ev_end = \<lparr>wall = w + 3600000000, fold = False\<rparr>, ev_location = None,
      ev_instructor = None, ev_room = r, ev_description = None\<rparr>"

section \<open>Notions of the specification\<close>

text \<open>
  Unfolding a folded line: the first physical line, then every continuation line
  without its one leading space.
\<close>

fun strip_one_space :: "pystr \<Rightarrow> pystr" where
  "strip_one_space [] = []"
| "strip_one_space (c # cs) = (if c = 32 then cs else c # cs)"

fun rejoin :: "pystr list \<Rightarrow> pystr" where
  "rejoin [] = []"
| "rejoin (l # ls) = l @ concat (map strip_one_space ls)"

text \<open>
  Escaping in one pass from the left, as the specification words it: a backslash, a
  semicolon and a comma get a backslash before them, CR LF and LF become backslash n,
  and every other code point stays.
\<close>

definition esc1 :: "codepoint \<Rightarrow> pystr" where
  "esc1 c = (if c = 92 then [92, 92] else if c = 59 then [92, 59]
             else if c = 44 then [92, 44] else if c = 10 then [92, 110] else [c])"

fun esc_spec :: "pystr \<Rightarrow> pystr" where
  "esc_spec [] = []"
| "esc_spec [c] = esc1 c"
| "esc_spec (c # d # cs) =
     (if c = 13 \<and> d = 10 then [92, 110] @ esc_spec cs else esc1 c @ esc_spec (d # cs))"

text \<open>A text whose only control characters (below 32) are line breaks, LF or CR LF.\<close>

fun newline_controls_only :: "pystr \<Rightarrow> bool" where
  "newline_controls_only [] = True"
| "newline_controls_only [c] = (32 \<le> c \<or> c = 10)"
| "newline_controls_only (c # d # cs) =
     (if c = 13 \<and> d = 10 then newline_controls_only cs
      else (32 \<le> c \<or> c = 10) \<and> newline_controls_only (d # cs))"

text \<open>The first three replacements of \<^verbatim>\<open>_escape_ics\<close> together work on each code point by itself.\<close>

definition esc3 :: "codepoint \<Rightarrow> pystr" where
  "esc3 c = (if c = 92 then [92, 92] else if c = 59 then [92, 59]
             else if c = 44 then [92, 44] else [c])"

text \<open>The text after the fourth replacement, in one pass.\<close>

fun after_crlf :: "pystr \<Rightarrow> pystr" where
  "after_crlf [] = []"
| "after_crlf [c] = esc3 c"
| "after_crlf (c # d # cs) =
     (if c = 13 \<and> d = 10 then [92, 110] @ after_crlf cs else esc3 c @ after_crlf (d # cs))"


text \<open>
  Decoding with \<^verbatim>\<open>errors="replace"\<close> gives a code point or a replacement character for
  every byte sequence it reads, so only the empty payload decodes to the empty text.
\<close>

definition decode_keeps_nonempty :: "pylib \<Rightarrow> bool" where
  "decode_keeps_nonempty lib = (\<forall>d. (utf8_decode lib d = []) = (d = []))"

text \<open>
  The duration of a record: the integer under the first of the four duration keys whose
  value is not \<^verbatim>\<open>None\<close> and is accepted by \<^verbatim>\<open>int\<close>. The minutes added to the start
  are this duration when there is one and it is not zero, and 60 otherwise.
\<close>

definition duration_of :: "pylib \<Rightarrow> pydict \<Rightarrow> int option" where
  "duration_of lib it =
     (case filter (\<lambda>k. dict_get it k \<noteq> JNull \<and> py_int lib (dict_get it k) \<noteq> None)
             duration_keys of
        [] \<Rightarrow> None
      | k # ks \<Rightarrow> py_int lib (dict_get it k))"

definition minutes_added :: "int option \<Rightarrow> int" where
  "minutes_added d = (case d of None \<Rightarrow> 60 | Some n \<Rightarrow> if n = 0 then 60 else n)"

text \<open>The lines of a calendar before the first event.\<close>

definition header_lines :: "pystr list" where
  "header_lines =
     [str ''BEGIN:VCALENDAR'', str ''PRODID:-//fitx-local//ics//EN'', str ''VERSION:2.0'',
      str ''CALSCALE:GREGORIAN'', str ''METHOD:PUBLISH'']
     @ vtz_europe_berlin"

section \<open>Line folding\<close>

lemma str_Nil [simp]: "str [] = []"
  by (simp add: str_def)

lemma str_Cons [simp]: "str (c # cs) = of_char c # str cs"
  by (simp add: str_def)

lemma foldl_append_concat: "foldl (\<lambda>acc x. acc @ f x) a xs = a @ concat (map f xs)"
  by (induction xs arbitrary: a) simp_all

lemma fold_line_long:
  "length line > 75 \<Longrightarrow> fold_line line = take 75 line # fold_line (32 # drop 75 line)"
  by (subst fold_line.simps) simp

lemma fold_line_short: "\<not> length line > 75 \<Longrightarrow> fold_line line = [line]"
  by (subst fold_line.simps) simp

lemma fold_line_nonempty: "fold_line line \<noteq> []"
  by (subst fold_line.simps) simp

lemma fold_line_hd: "hd (fold_line line) = take 75 line"
  by (subst fold_line.simps) simp

lemma fold_line_le: "l \<in> set (fold_line line) \<Longrightarrow> length l \<le> 75"
proof (induction line rule: fold_line.induct)
  case (1 line)
  show ?case
  proof (cases "length line > 75")
    case True
    with 1 show ?thesis by (auto simp: fold_line_long)
  next
    case False
    with 1 show ?thesis by (auto simp: fold_line_short)
  qed
qed

lemma fold_line_tl_space: "l \<in> set (tl (fold_line line)) \<Longrightarrow> \<exists>r. l = 32 # r"
proof (induction line rule: fold_line.induct)
  case (1 line)
  show ?case
  proof (cases "length line > 75")
    case True
    let ?rest = "fold_line (32 # drop 75 line)"
    from 1(2) True have mem: "l \<in> set ?rest" by (simp add: fold_line_long)
    obtain h t where ht: "?rest = h # t"
      using fold_line_nonempty by (cases ?rest) auto
    have h: "h = take 75 (32 # drop 75 line)"
      using ht fold_line_hd [of "32 # drop 75 line"] by simp
    from mem ht consider "l = h" | "l \<in> set (tl ?rest)" by auto
    then show ?thesis
    proof cases
      case 1
      with h show ?thesis by (simp add: take_Cons')
    next
      case 2
      with "1.IH" True show ?thesis by simp
    qed
  next
    case False
    with 1(2) show ?thesis by (simp add: fold_line_short)
  qed
qed

lemma rejoin_fold_line: "rejoin (fold_line line) = line"
proof (induction line rule: fold_line.induct)
  case (1 line)
  show ?case
  proof (cases "length line > 75")
    case True
    let ?rest = "fold_line (32 # drop 75 line)"
    obtain h t where ht: "?rest = h # t"
      using fold_line_nonempty by (cases ?rest) auto
    have "h = take 75 (32 # drop 75 line)"
      using ht fold_line_hd [of "32 # drop 75 line"] by simp
    then obtain r where r: "h = 32 # r" by (simp add: take_Cons')
    have "rejoin ?rest = 32 # drop 75 line" using 1 True by simp
    with ht r have "r @ concat (map strip_one_space t) = drop 75 line" by simp
    with ht r have "concat (map strip_one_space ?rest) = drop 75 line" by simp
    with True show ?thesis by (simp add: fold_line_long)
  next
    case False
    then show ?thesis by (simp add: fold_line_short)
  qed
qed

lemma folded_lines_concat: "folded_lines lines = concat (map fold_line lines)"
  by (simp add: folded_lines_def foldl_append_concat)

text \<open>
  Claim C6. Folding a line gives physical lines of at most 75 code points, the first
  of them the first 75 code points of the line; every continuation line is one space
  followed by a piece of the line (whatever that piece begins with); and the first line
  followed by the continuation lines without their leading space is the line again.
  \<^verbatim>\<open>generate_ics\<close> folds every line it has built, the header, the time zone block and
  the footer like the lines of the events, and joins the physical lines with CR LF, so
  no physical line of a calendar has more than 75 code points.
\<close>

theorem fold_line_bound_and_roundtrip:
  "(\<forall>l \<in> set (fold_line line). length l \<le> 75)
   \<and> (\<forall>l \<in> set (tl (fold_line line)). \<exists>r. l = 32 # r)
   \<and> hd (fold_line line) = take 75 line
   \<and> rejoin (fold_line line) = line
   \<and> generate_ics lib course_id now events
       = join [13, 10] (concat (map fold_line (ics_lines lib course_id now events))) @ [13, 10]
   \<and> (\<forall>l \<in> set (concat (map fold_line (ics_lines lib course_id now events))). length l \<le> 75)"
proof -
  have "\<forall>l \<in> set (concat (map fold_line ls)). length l \<le> 75" for ls
    by (auto dest: fold_line_le)
  then show ?thesis
    by (auto simp: generate_ics_def folded_lines_concat fold_line_hd rejoin_fold_line
        dest: fold_line_le fold_line_tl_space)
qed

theorem fold_line_bound_and_roundtrip_witness:
  "32 # replicate 5 65 \<in> set (tl (fold_line (replicate 80 65)))
   \<and> length (32 # replicate 5 (65::nat)) \<le> 75
   \<and> rejoin (fold_line (replicate 80 65)) = replicate 80 65"
  using fold_line_bound_and_roundtrip [of "replicate 80 65" "example_lib []" 53 0 "[]"]
  by (simp add: fold_line_long fold_line_short)

section \<open>Escaping\<close>

lemma replace_Nil [simp]: "old \<noteq> [] \<Longrightarrow> replace old new [] = []"
  by (subst replace.simps) simp

lemma replace_single_Cons:
  "replace [a] new (c # cs) = (if c = a then new else [c]) @ replace [a] new cs"
  by (subst replace.simps) (simp add: starts_with_def)

lemma replace_single: "replace [a] new s = concat (map (\<lambda>c. if c = a then new else [c]) s)"
  by (induction s) (simp_all add: replace_single_Cons)

lemma replace_single_append:
  "replace [a] new (xs @ ys) = replace [a] new xs @ replace [a] new ys"
  by (simp add: replace_single)

lemma first_three_replacements:
  "replace [44] [92, 44] (replace [59] [92, 59] (replace [92] [92, 92] s)) = concat (map esc3 s)"
  by (induction s) (simp_all add: replace_single esc3_def)

lemma replace_crlf_other:
  "c \<noteq> 13 \<Longrightarrow> replace [13, 10] new (c # cs) = c # replace [13, 10] new cs"
  by (subst replace.simps) (simp add: starts_with_def)

lemma replace_crlf_hit:
  "replace [13, 10] new (13 # 10 # cs) = new @ replace [13, 10] new cs"
  by (subst replace.simps) (simp add: starts_with_def)

lemma replace_crlf_miss:
  "cs = [] \<or> hd cs \<noteq> 10 \<Longrightarrow> replace [13, 10] new (13 # cs) = 13 # replace [13, 10] new cs"
  by (subst replace.simps) (cases cs; auto simp add: starts_with_def)

lemma esc3_hd: "hd (esc3 c @ xs) = 10 \<longleftrightarrow> c = 10"
  by (auto simp: esc3_def)

lemma esc3_CR: "esc3 13 = [13]"
  by (simp add: esc3_def)

lemma replace_crlf_esc3:
  "c \<noteq> 13 \<Longrightarrow> replace [13, 10] new (esc3 c @ xs) = esc3 c @ replace [13, 10] new xs"
  by (auto simp: esc3_def replace_crlf_other)

lemma fourth_replacement: "replace [13, 10] [92, 110] (concat (map esc3 s)) = after_crlf s"
proof (induction s rule: after_crlf.induct)
  case 1
  then show ?case by simp
next
  case (2 c)
  show ?case
  proof (cases "c = 13")
    case True
    then show ?thesis by (simp add: esc3_CR replace_crlf_miss)
  next
    case False
    then show ?thesis using replace_crlf_esc3 [of c _ "[]"] by simp
  qed
next
  case (3 c d cs)
  show ?case
  proof (cases "c = 13")
    case True
    show ?thesis
    proof (cases "d = 10")
      case d: True
      have "esc3 10 = [10]" by (simp add: esc3_def)
      with True d 3 show ?thesis by (simp add: esc3_CR replace_crlf_hit)
    next
      case d: False
      have "hd (esc3 d @ concat (map esc3 cs)) \<noteq> 10" using d esc3_hd by simp
      then have "replace [13, 10] [92, 110] (13 # (esc3 d @ concat (map esc3 cs)))
                 = 13 # replace [13, 10] [92, 110] (esc3 d @ concat (map esc3 cs))"
        by (intro replace_crlf_miss) simp
      with True d 3 show ?thesis by (simp add: esc3_CR)
    qed
  next
    case False
    with 3 show ?thesis using replace_crlf_esc3 [OF False] by simp
  qed
qed

lemma fifth_replacement: "replace [10] [92, 110] (after_crlf s) = esc_spec s"
  by (induction s rule: after_crlf.induct)
     (auto simp: replace_single_append replace_single esc3_def esc1_def)

lemma escape_ics_esc_spec: "escape_ics s = esc_spec s"
  by (simp add: escape_ics_def first_three_replacements fourth_replacement fifth_replacement)

lemma esc_spec_no_LF: "10 \<notin> set (esc_spec s)"
  by (induction s rule: esc_spec.induct) (auto simp: esc1_def)

lemma esc_spec_no_control:
  "newline_controls_only s \<Longrightarrow> c \<in> set (esc_spec s) \<Longrightarrow> 32 \<le> c"
  by (induction s rule: esc_spec.induct) (auto simp: esc1_def split: if_splits)

text \<open>
  Claim C7. The five replacements of \<^verbatim>\<open>_escape_ics\<close> amount to one pass over the text
  in which a backslash becomes two backslashes, a semicolon backslash semicolon, a comma
  backslash comma, and CR LF or a lone LF backslash n, every code point of the input
  being escaped once. No LF is left in the result, and a text whose only control
  characters are line breaks gives a result without control characters. The
  \<^verbatim>\<open>SUMMARY\<close> line of an event is \<^verbatim>\<open>SUMMARY:\<close> and the escaped title: the title
  \<^verbatim>\<open>Yoga, slow; deep\<close>, LF, \<^verbatim>\<open>breath\<close> gives \<^verbatim>\<open>Yoga\, slow\; deep\nbreath\<close>.
\<close>

theorem escape_ics_one_pass:
  "escape_ics s = esc_spec s
   \<and> 10 \<notin> set (escape_ics s)
   \<and> (newline_controls_only s \<longrightarrow> (\<forall>c \<in> set (escape_ics s). 32 \<le> c))
   \<and> vevent_lines lib course_id now ev ! 5 = str ''SUMMARY:'' @ esc_spec (ev_title ev)
   \<and> esc_spec (str ''Yoga, slow; deep'' @ [10] @ str ''breath'')
       = str ''Yoga'' @ [92, 44] @ str '' slow'' @ [92, 59] @ str '' deep'' @ [92, 110]
         @ str ''breath''"
  by (auto simp: escape_ics_esc_spec esc_spec_no_LF esc1_def vevent_lines_def
      dest: esc_spec_no_control)

theorem escape_ics_one_pass_witness:
  "newline_controls_only (str ''a,b;c'' @ [13, 10] @ str ''d'' @ [10] @ str ''e'')
   \<and> list_all (\<lambda>c. 32 \<le> c)
         (escape_ics (str ''a,b;c'' @ [13, 10] @ str ''d'' @ [10] @ str ''e''))
   \<and> escape_ics (str ''a,b;c'' @ [13, 10] @ str ''d'' @ [10] @ str ''e'')
       = str ''a'' @ [92, 44] @ str ''b'' @ [92, 59] @ str ''c'' @ [92, 110] @ str ''d''
         @ [92, 110] @ str ''e''"
  using escape_ics_one_pass [of "str ''a,b;c'' @ [13, 10] @ str ''d'' @ [10] @ str ''e''"
      "example_lib []" 53 0
      "\<lparr>ev_id = [], ev_title = [], ev_start = \<lparr>wall = 0, fold = False\<rparr>,
        ev_end = \<lparr>wall = 0, fold = False\<rparr>, ev_location = None, ev_instructor = None,
        ev_room = None, ev_description = None\<rparr>"]
  by (simp add: esc1_def)

section \<open>Deduplication and order\<close>

lemma map_of_dict_set: "map_of (dict_set d k v) = (map_of d)(k \<mapsto> v)"
  by (induction d k v rule: dict_set.induct) auto

lemma keys_dict_set: "set (map fst (dict_set d k v)) = insert k (set (map fst d))"
  by (induction d k v rule: dict_set.induct) auto

lemma distinct_dict_set: "distinct (map fst d) \<Longrightarrow> distinct (map fst (dict_set d k v))"
proof (induction d k v rule: dict_set.induct)
  case (1 k v)
  then show ?case by simp
next
  case (2 k' v' d k v)
  then show ?case using keys_dict_set [of d k v] by auto
qed

lemma uniq_of_snoc:
  "uniq_of lib (events @ [e]) = dict_set (uniq_of lib events) (dedup_key lib e) e"
  by (simp add: uniq_of_def)

lemma uniq_of_Nil: "uniq_of lib [] = []"
  by (simp add: uniq_of_def)

lemma distinct_uniq_of: "distinct (map fst (uniq_of lib events))"
  by (induction events rule: rev_induct) (simp_all add: uniq_of_Nil uniq_of_snoc distinct_dict_set)

lemma map_of_uniq_of:
  "map_of (uniq_of lib events) k =
     (case filter (\<lambda>x. dedup_key lib x = k) events of [] \<Rightarrow> None | y # ys \<Rightarrow> Some (last (y # ys)))"
proof (induction events rule: rev_induct)
  case Nil
  then show ?case by (simp add: uniq_of_Nil)
next
  case (snoc e events)
  show ?case
  proof (cases "dedup_key lib e = k")
    case True
    then show ?thesis
      by (cases "filter (\<lambda>x. dedup_key lib x = k) events") 
         (simp_all add: uniq_of_snoc map_of_dict_set)
  next
    case False
    then show ?thesis using snoc by (simp add: uniq_of_snoc map_of_dict_set)
  qed
qed

lemma uniq_of_entry:
  "(k, v) \<in> set (uniq_of lib events) \<Longrightarrow> dedup_key lib v = k \<and> v \<in> set events"
proof -
  assume "(k, v) \<in> set (uniq_of lib events)"
  then have "map_of (uniq_of lib events) k = Some v"
    using distinct_uniq_of by (simp add: map_of_eq_Some_iff)
  then have *: "filter (\<lambda>x. dedup_key lib x = k) events \<noteq> []"
    and v: "v = last (filter (\<lambda>x. dedup_key lib x = k) events)"
    by (auto simp: map_of_uniq_of split: list.splits)
  from * have "last (filter (\<lambda>x. dedup_key lib x = k) events)
      \<in> set (filter (\<lambda>x. dedup_key lib x = k) events)"
    by (rule last_in_set)
  with v show ?thesis by simp
qed

lemma keys_of_values: "map (dedup_key lib) (map snd (uniq_of lib events)) = map fst (uniq_of lib events)"
  by (auto dest: uniq_of_entry)

lemma values_uniq_of:
  "e \<in> set (map snd (uniq_of lib events)) \<longleftrightarrow>
     e \<in> set events \<and> last (filter (\<lambda>x. dedup_key lib x = dedup_key lib e) events) = e"
proof
  assume "e \<in> set (map snd (uniq_of lib events))"
  then obtain k where kv: "(k, e) \<in> set (uniq_of lib events)" by auto
  then have k: "dedup_key lib e = k" and mem: "e \<in> set events"
    using uniq_of_entry by blast+
  from kv have "map_of (uniq_of lib events) k = Some e"
    using distinct_uniq_of by (simp add: map_of_eq_Some_iff)
  then have "last (filter (\<lambda>x. dedup_key lib x = k) events) = e"
    by (auto simp: map_of_uniq_of split: list.splits)
  with k mem show "e \<in> set events \<and> last (filter (\<lambda>x. dedup_key lib x = dedup_key lib e) events) = e"
    by simp
next
  assume a: "e \<in> set events \<and> last (filter (\<lambda>x. dedup_key lib x = dedup_key lib e) events) = e"
  then have "filter (\<lambda>x. dedup_key lib x = dedup_key lib e) events \<noteq> []"
    by (auto simp: filter_empty_conv)
  with a have "map_of (uniq_of lib events) (dedup_key lib e) = Some e"
    by (auto simp: map_of_uniq_of split: list.splits)
  then have "(dedup_key lib e, e) \<in> set (uniq_of lib events)"
    by (rule map_of_SomeD)
  then show "e \<in> set (map snd (uniq_of lib events))" by force
qed

lemma distinct_map_sort_key: "distinct (map f (sort_key g xs)) = distinct (map f xs)"
  by (simp add: distinct_map)

lemma distinct_keys_dedup_sort: "distinct (map (dedup_key lib) (dedup_sort lib events))"
proof -
  have "distinct (map (dedup_key lib) (map snd (uniq_of lib events)))"
    using distinct_uniq_of [of lib events] by (simp only: keys_of_values)
  then show ?thesis
    by (simp only: dedup_sort_def distinct_map_sort_key)
qed

lemma sort_by_order:
  "sort_by a \<le> sort_by b \<longleftrightarrow>
     wall (ev_start a) < wall (ev_start b)
     \<or> (wall (ev_start a) = wall (ev_start b) \<and> ev_title a \<le> ev_title b)"
  by (auto simp: sort_by_def)

lemma sorted_sort_by_explicit:
  "sorted (map sort_by xs) \<longleftrightarrow>
     sorted_wrt (\<lambda>a b. wall (ev_start a) < wall (ev_start b)
        \<or> (wall (ev_start a) = wall (ev_start b) \<and> ev_title a \<le> ev_title b)) xs"
  by (simp add: sorted_map sort_by_order)

lemma dedup_key_eq:
  "dedup_key lib x = dedup_key lib e \<longleftrightarrow>
     ev_id x = ev_id e \<and> epoch_seconds lib (ev_start x) = epoch_seconds lib (ev_start e)
     \<and> epoch_seconds lib (ev_end x) = epoch_seconds lib (ev_end e)"
  by (auto simp: dedup_key_def)

lemma dedup_key_explicit:
  "dedup_key lib = (\<lambda>x. (ev_id x, epoch_seconds lib (ev_start x), epoch_seconds lib (ev_end x)))"
  by (auto simp: dedup_key_def)

text \<open>
  Claim C3. The events that \<^verbatim>\<open>_build_events_from_obj\<close> returns for the coerced
  events of one parse are in ascending order of the pair (start, title): of two events
  the earlier in the list has the earlier start, or the same start and a title that is
  not greater. No two of them agree in the id, the epoch seconds of the start and the
  epoch seconds of the end; and an event is among them exactly when it is the last of
  the coerced events with its id, epoch seconds of start and epoch seconds of end, so
  of the records that share this key the one processed last survives, with its fields.
\<close>

theorem dedup_sort_last_per_key:
  "sorted_wrt (\<lambda>a b. wall (ev_start a) < wall (ev_start b)
        \<or> (wall (ev_start a) = wall (ev_start b) \<and> ev_title a \<le> ev_title b))
      (dedup_sort lib events)
   \<and> distinct (map (\<lambda>x. (ev_id x, epoch_seconds lib (ev_start x), epoch_seconds lib (ev_end x)))
        (dedup_sort lib events))
   \<and> (e \<in> set (dedup_sort lib events) \<longleftrightarrow>
        e \<in> set events
        \<and> last (filter (\<lambda>x. ev_id x = ev_id e
                     \<and> epoch_seconds lib (ev_start x) = epoch_seconds lib (ev_start e)
                     \<and> epoch_seconds lib (ev_end x) = epoch_seconds lib (ev_end e)) events) = e)
   \<and> build_events_from_obj lib obj
       = map_sum id (dedup_sort lib) (coerce_all lib (extract_events_from_json obj))"
proof -
  have s: "sorted (map sort_by (dedup_sort lib events))"
    by (simp add: dedup_sort_def)
  have d: "distinct (map (\<lambda>x. (ev_id x, epoch_seconds lib (ev_start x),
               epoch_seconds lib (ev_end x))) (dedup_sort lib events))"
    using distinct_keys_dedup_sort [of lib events] by (simp only: dedup_key_explicit)
  have "set (dedup_sort lib events) = set (map snd (uniq_of lib events))"
    by (simp add: dedup_sort_def)
  then have m: "e \<in> set (dedup_sort lib events) \<longleftrightarrow>
        e \<in> set events
        \<and> last (filter (\<lambda>x. ev_id x = ev_id e
                     \<and> epoch_seconds lib (ev_start x) = epoch_seconds lib (ev_start e)
                     \<and> epoch_seconds lib (ev_end x) = epoch_seconds lib (ev_end e)) events) = e"
    using values_uniq_of [of e lib events] by (simp only: dedup_key_eq)
  have b: "build_events_from_obj lib obj
       = map_sum id (dedup_sort lib) (coerce_all lib (extract_events_from_json obj))"
    by (auto simp: build_events_from_obj_def split: sum.splits)
  from s have s': "sorted_wrt (\<lambda>a b. wall (ev_start a) < wall (ev_start b)
        \<or> (wall (ev_start a) = wall (ev_start b) \<and> ev_title a \<le> ev_title b))
      (dedup_sort lib events)"
    by (simp only: sorted_sort_by_explicit)
  from s' d m b show ?thesis by blast
qed

theorem dedup_sort_last_per_key_witness:
  "dedup_sort (example_lib [])
     [example_event (str ''7'') (str ''Yoga'') 9000000000 (Some (str ''A'')),
      example_event (str ''3'') (str ''Zumba'') 5000000000 None,
      example_event (str ''7'') (str ''Yoga'') 9000000000 (Some (str ''B'')),
      example_event (str ''7'') (str ''Core'') 12000000000 None]
   = [example_event (str ''3'') (str ''Zumba'') 5000000000 None,
      example_event (str ''7'') (str ''Yoga'') 9000000000 (Some (str ''B'')),
      example_event (str ''7'') (str ''Core'') 12000000000 None]
   \<and> example_event (str ''7'') (str ''Yoga'') 9000000000 (Some (str ''A''))
       \<notin> set (dedup_sort (example_lib [])
     [example_event (str ''7'') (str ''Yoga'') 9000000000 (Some (str ''A'')),
      example_event (str ''3'') (str ''Zumba'') 5000000000 None,
      example_event (str ''7'') (str ''Yoga'') 9000000000 (Some (str ''B'')),
      example_event (str ''7'') (str ''Core'') 12000000000 None])"
  using dedup_sort_last_per_key [of "example_lib []"
      "[example_event (str ''7'') (str ''Yoga'') 9000000000 (Some (str ''A'')),
      example_event (str ''3'') (str ''Zumba'') 5000000000 None,
      example_event (str ''7'') (str ''Yoga'') 9000000000 (Some (str ''B'')),
      example_event (str ''7'') (str ''Core'') 12000000000 None]"
      "example_event (str ''7'') (str ''Yoga'') 9000000000 (Some (str ''A''))" "JNull"]
  by (simp add: dedup_sort_def uniq_of_def dedup_key_def sort_by_def example_event_def
      example_lib_def)

section \<open>The keyword filter\<close>











section \<open>A failed refresh cycle\<close>

lemma fetch_course_page_fails:
  "fetch_course_page client_get = Inl e \<longleftrightarrow>
     client_get 0 = None \<and> client_get 1 = None \<and> client_get 2 = None \<and> e = RuntimeError_fetch"
  by (auto simp: fetch_course_page_def split: option.splits)

lemma calendar_cached:
  "cache_ics st = Some doc \<Longrightarrow> doc \<noteq> [] \<Longrightarrow> calendar lib cfg t st = doc"
  by (simp add: calendar_def Let_def)

text \<open>
  Claim C5. When the fetch raises (all three attempts fail) or the parser raises,
  \<^verbatim>\<open>_refresh_once\<close> does nothing more: the state after the cycle is the state before
  it, the two cached values and the two files alike, and \<^verbatim>\<open>/calendar.ics\<close> serves at
  any moment what it would have served at that moment without the cycle: the cached
  document, when there is one.
\<close>

theorem refresh_once_failure_keeps_state:
  assumes "fetch_course_page client_get = Inl e
     \<or> (\<exists>data content_type. fetch_course_page client_get = Inr (data, content_type)
           \<and> parse_schedule lib data content_type = Inl e)"
  shows "refresh_once lib cfg client_get now st = st
     \<and> cache_ics (refresh_once lib cfg client_get now st) = cache_ics st
     \<and> cache_events (refresh_once lib cfg client_get now st) = cache_events st
     \<and> files (refresh_once lib cfg client_get now st) = files st
     \<and> calendar lib cfg t (refresh_once lib cfg client_get now st) = calendar lib cfg t st
     \<and> (cache_ics st = Some doc \<and> doc \<noteq> [] \<longrightarrow>
          calendar lib cfg t (refresh_once lib cfg client_get now st) = doc)"
proof -
  have "refresh_once lib cfg client_get now st = st"
    using assms by (auto simp: refresh_once_def)
  then show ?thesis by (simp add: calendar_cached)
qed

theorem refresh_once_failure_keeps_state_witness:
  "fetch_course_page (\<lambda>n. None) = Inl RuntimeError_fetch
   \<and> refresh_once (example_lib []) \<lparr>FITX_COURSE_ID = 53, EXCLUDE_KEYWORDS = []\<rparr> (\<lambda>n. None) 0
       \<lparr>cache_ics = Some (str ''BEGIN:VCALENDAR''), cache_events = Some [],
        files = \<lparr>CACHE_JSON = Holds [], CACHE_ICS = Holds (str ''BEGIN:VCALENDAR'')\<rparr>\<rparr>
     = \<lparr>cache_ics = Some (str ''BEGIN:VCALENDAR''), cache_events = Some [],
        files = \<lparr>CACHE_JSON = Holds [], CACHE_ICS = Holds (str ''BEGIN:VCALENDAR'')\<rparr>\<rparr>
   \<and> calendar (example_lib []) \<lparr>FITX_COURSE_ID = 53, EXCLUDE_KEYWORDS = []\<rparr> 7
       (refresh_once (example_lib []) \<lparr>FITX_COURSE_ID = 53, EXCLUDE_KEYWORDS = []\<rparr> (\<lambda>n. None) 0
         \<lparr>cache_ics = Some (str ''BEGIN:VCALENDAR''), cache_events = Some [],
          files = \<lparr>CACHE_JSON = Holds [], CACHE_ICS = Holds (str ''BEGIN:VCALENDAR'')\<rparr>\<rparr>)
     = str ''BEGIN:VCALENDAR''"
proof -
  have h: "fetch_course_page (\<lambda>n. None) = Inl RuntimeError_fetch"
    by (simp add: fetch_course_page_def)
  show ?thesis
    using h refresh_once_failure_keeps_state [of "\<lambda>n. None" RuntimeError_fetch "example_lib []"
        "\<lparr>FITX_COURSE_ID = 53, EXCLUDE_KEYWORDS = []\<rparr>" 0
        "\<lparr>cache_ics = Some (str ''BEGIN:VCALENDAR''), cache_events = Some [],
          files = \<lparr>CACHE_JSON = Holds [], CACHE_ICS = Holds (str ''BEGIN:VCALENDAR'')\<rparr>\<rparr>" 7
        "str ''BEGIN:VCALENDAR''"]
    by (simp add: calendar_def)
qed

section \<open>The errors of the parser\<close>

lemma parse_html_not_decodable:
  "parse_html lib data = Inl ValueError_not_decodable \<longleftrightarrow> utf8_decode lib data = []"
  by (auto simp: parse_html_def Let_def split: option.splits)

text \<open>
  Claim C10. On the HTML branch (the content type does not contain
  \<^verbatim>\<open>application/json\<close> and the first byte is neither a brace nor a bracket)
  \<^verbatim>\<open>parse_schedule\<close> raises the error "not decodable as UTF-8 text" exactly when the
  decoded text is empty; with a decoder that gives the empty text for the empty payload
  alone, that is exactly when the payload is empty.
\<close>

theorem not_decodable_iff_empty_text:
  assumes "\<not> looks_like_json lib data content_type"
  shows "(parse_schedule lib data content_type = Inl ValueError_not_decodable
            \<longleftrightarrow> utf8_decode lib data = [])
     \<and> (decode_keeps_nonempty lib \<longrightarrow>
          (parse_schedule lib data content_type = Inl ValueError_not_decodable
            \<longleftrightarrow> data = []))"
  using assms
  by (simp add: parse_schedule_def parse_html_not_decodable decode_keeps_nonempty_def)

theorem not_decodable_iff_empty_text_witness:
  "\<not> looks_like_json (example_lib []) [] (Some (str ''text/html''))
   \<and> decode_keeps_nonempty (example_lib [])
   \<and> parse_schedule (example_lib []) [] (Some (str ''text/html'')) = Inl ValueError_not_decodable
   \<and> parse_schedule (example_lib []) [0x3C, 0x70, 0x3E] (Some (str ''text/html''))
       \<noteq> Inl ValueError_not_decodable"
proof -
  have h1: "\<not> looks_like_json (example_lib []) [] (Some (str ''text/html''))"
    by (simp add: looks_like_json_def or_empty_def example_lib_def ascii_lower_def
        starts_with_def)
  have h2: "\<not> looks_like_json (example_lib []) [0x3C, 0x70, 0x3E] (Some (str ''text/html''))"
    by (simp add: looks_like_json_def or_empty_def example_lib_def ascii_lower_def
        starts_with_def)
  have h3: "decode_keeps_nonempty (example_lib [])"
    by (simp add: decode_keeps_nonempty_def example_lib_def)
  show ?thesis
    using h1 h2 h3
      not_decodable_iff_empty_text [OF h1]
      not_decodable_iff_empty_text [OF h2]
    by (simp add: example_lib_def)
qed

lemma parse_html_nonempty: "parse_html lib data = Inr events \<Longrightarrow> events \<noteq> []"
proof -
  have ev: "events_of_text lib c = Some evs \<Longrightarrow> evs \<noteq> []" for c evs
    by (auto simp: events_of_text_def split: option.splits sum.splits if_splits)
  have ty: "typed_scripts lib scs = Some evs \<Longrightarrow> evs \<noteq> []" for scs evs
    by (induction scs) (auto simp: Let_def split: if_splits option.splits dest: ev)
  have ca: "try_candidates lib cs = Some evs \<Longrightarrow> evs \<noteq> []" for cs evs
    by (induction cs) (auto split: option.splits dest: ev)
  assume "parse_html lib data = Inr events"
  then show ?thesis
    by (auto simp: parse_html_def Let_def split: if_splits option.splits dest: ty ca)
qed

lemma parse_schedule_direct:
  "looks_like_json lib data content_type \<Longrightarrow>
   json_loads lib (utf8_decode lib data) = Some obj \<Longrightarrow>
   build_events_from_obj lib obj = Inr events \<Longrightarrow>
   parse_schedule lib data content_type = Inr events"
  by (simp add: parse_schedule_def direct_json_def)

text \<open>
  Claim C1. The two HTML strategies return a list of events only when it is not empty
  (\<open>parse_html_nonempty\<close>), but the direct JSON path returns whatever
  \<^verbatim>\<open>_build_events_from_obj\<close> gives (\<open>parse_schedule_direct\<close>). For the payload
  \<^verbatim>\<open>{}\<close> with the content type \<^verbatim>\<open>application/json\<close>, which \<^verbatim>\<open>json.loads\<close> reads as
  the empty dict, \<^verbatim>\<open>parse_schedule\<close> returns the empty list and raises nothing.
\<close>

theorem parse_schedule_returns_empty_list:
  "parse_schedule (example_lib [(str ''{}'', JObj [])]) [0x7B, 0x7D]
     (Some (str ''application/json'')) = Inr []"
  by (simp add: parse_schedule_def looks_like_json_def direct_json_def example_lib_def
      build_events_from_obj_def extract_events_from_json_def direct_hits_def EVENT_KEYS_def
      dedup_sort_def uniq_of_def)

section \<open>The end of an event\<close>

lemma find_duration_filter:
  "find_duration lib it ks =
     (case filter (\<lambda>k. dict_get it k \<noteq> JNull \<and> py_int lib (dict_get it k) \<noteq> None) ks of
        [] \<Rightarrow> None
      | k # ks' \<Rightarrow> py_int lib (dict_get it k))"
  by (induction ks) (auto simp: Let_def split: option.splits)

lemma find_duration_duration_of: "find_duration lib it duration_keys = duration_of lib it"
  by (simp add: find_duration_filter duration_of_def)

lemma event_end_no_end_field:
  "first_datetime lib it end_keys = None \<Longrightarrow>
   event_end lib it start = add_minutes start (minutes_added (find_duration lib it duration_keys))"
  by (simp add: event_end_def minutes_added_def split: option.splits)

text \<open>
  Claim C2, amended. For a record whose start parses and none of whose end fields
  parses, the loop over the duration keys finds the duration of the record as defined
  above, and the coerced event has the parsed start and the end
  \<^verbatim>\<open>start + timedelta(minutes=m)\<close>, where \<open>m\<close> is the duration when there is one and it
  is not zero and 60 otherwise; where that sum raises \<^verbatim>\<open>OverflowError\<close>, so does
  \<^verbatim>\<open>coerce_event\<close>.
\<close>

theorem coerce_event_end_from_duration:
  assumes "first_datetime lib it start_keys = Some start"
    and "first_datetime lib it end_keys = None"
  shows "find_duration lib it duration_keys = duration_of lib it
     \<and> map_sum id (map_option (\<lambda>ev. (ev_start ev, ev_end ev))) (coerce_event lib it)
         = map_sum id (\<lambda>e. Some (start, e))
             (add_minutes start (minutes_added (duration_of lib it)))"
proof -
  have "event_end lib it start = add_minutes start (minutes_added (duration_of lib it))"
    using assms(2) by (simp add: event_end_no_end_field find_duration_duration_of)
  then show ?thesis
    using assms(1)
    by (cases "add_minutes start (minutes_added (duration_of lib it))")
       (simp_all add: coerce_event_def Let_def find_duration_duration_of)
qed

theorem coerce_event_end_from_duration_witness:
  "first_datetime (example_lib [])
      [(str ''start'', JInt 1717200000), (str ''minutes'', JInt 45)] start_keys
     = Some \<lparr>wall = 63852804000000000, fold = False\<rparr>
   \<and> first_datetime (example_lib [])
      [(str ''start'', JInt 1717200000), (str ''minutes'', JInt 45)] end_keys = None
   \<and> map_sum id (map_option (\<lambda>ev. (ev_start ev, ev_end ev)))
        (coerce_event (example_lib [])
           [(str ''start'', JInt 1717200000), (str ''minutes'', JInt 45)])
       = Inr (Some (\<lparr>wall = 63852804000000000, fold = False\<rparr>,
                    \<lparr>wall = 63852806700000000, fold = False\<rparr>))"
proof -
  have h1: "first_datetime (example_lib [])
      [(str ''start'', JInt 1717200000), (str ''minutes'', JInt 45)] start_keys
     = Some \<lparr>wall = 63852804000000000, fold = False\<rparr>"
    by (simp add: start_keys_def parse_any_datetime_def parse_epoch_def dict_get_def
        example_lib_def)
  have h2: "first_datetime (example_lib [])
      [(str ''start'', JInt 1717200000), (str ''minutes'', JInt 45)] end_keys = None"
    by (simp add: end_keys_def parse_any_datetime_def parse_epoch_def dict_get_def
        example_lib_def)
  have d: "duration_of (example_lib [])
      [(str ''start'', JInt 1717200000), (str ''minutes'', JInt 45)] = Some 45"
    by (simp add: duration_of_def duration_keys_def dict_get_def)
  have m: "add_minutes \<lparr>wall = 63852804000000000, fold = False\<rparr> (minutes_added (Some 45))
           = Inr \<lparr>wall = 63852806700000000, fold = False\<rparr>"
    by (simp add: minutes_added_def add_minutes_def max_wall_def)
  show ?thesis
    using h1 h2 coerce_event_end_from_duration [OF h1 h2, unfolded d m]
    by simp
qed

text \<open>
  Claim C2 as stated fails for a duration of zero: the record with the start
  1717200000 and \<^verbatim>\<open>duration\<close> 0 has no end field, the loop finds the duration 0, and
  the end of the coerced event is the start plus 60 minutes, not the start.
\<close>

theorem zero_duration_gives_sixty_minutes:
  "first_datetime (example_lib [])
      [(str ''start'', JInt 1717200000), (str ''duration'', JInt 0)] start_keys
     = Some \<lparr>wall = 63852804000000000, fold = False\<rparr>
   \<and> first_datetime (example_lib [])
      [(str ''start'', JInt 1717200000), (str ''duration'', JInt 0)] end_keys = None
   \<and> find_duration (example_lib [])
      [(str ''start'', JInt 1717200000), (str ''duration'', JInt 0)] duration_keys = Some 0
   \<and> add_minutes \<lparr>wall = 63852804000000000, fold = False\<rparr> 0
       = Inr \<lparr>wall = 63852804000000000, fold = False\<rparr>
   \<and> map_sum id (map_option ev_end)
        (coerce_event (example_lib [])
           [(str ''start'', JInt 1717200000), (str ''duration'', JInt 0)])
       = Inr (Some \<lparr>wall = 63852807600000000, fold = False\<rparr>)"
  by (simp add: coerce_event_def event_end_def start_keys_def end_keys_def duration_keys_def
      parse_any_datetime_def parse_epoch_def dict_get_def example_lib_def add_minutes_def
      max_wall_def py_or_def Let_def)

section \<open>The order of the events in a calendar\<close>

lemma ics_lines_blocks:
  "ics_lines lib course_id now events
   = header_lines @ concat (map (vevent_lines lib course_id now) (sort_key sort_by events))
     @ [str ''END:VCALENDAR'']"
  by (simp add: ics_lines_def header_lines_def Let_def foldl_append_concat)

lemma header_no_begin_vevent: "filter (\<lambda>l. l = str ''BEGIN:VEVENT'') header_lines = []"
  by (simp add: header_lines_def vtz_europe_berlin_def)

lemma vevent_one_begin:
  "filter (\<lambda>l. l = str ''BEGIN:VEVENT'') (vevent_lines lib course_id now ev) = [str ''BEGIN:VEVENT'']"
  by (simp add: vevent_lines_def split: option.splits)

lemma count_blocks:
  "length (filter (\<lambda>l. l = str ''BEGIN:VEVENT'') (concat (map (vevent_lines lib course_id now) evs)))
   = length evs"
  by (induction evs) (simp_all del: str_Cons str_Nil add: vevent_one_begin)

lemma sort_key_same_order:
  assumes "mset ys = mset xs"
    and "\<And>k. filter (\<lambda>e. f e = k) ys = filter (\<lambda>e. f e = k) xs"
  shows "sort_key f ys = sort_key f xs"
proof (rule properties_for_sort_key)
  show "mset (sort_key f xs) = mset ys" using assms(1) by simp
  show "sorted (map f (sort_key f xs))" by simp
  fix k
  have "filter (\<lambda>x. f x = f k) (sort_key f xs) = filter (\<lambda>x. f x = f k) ys"
    using assms(2) [of "f k"] by (simp add: sort_key_stable)
  moreover have "(\<lambda>x. f k = f x) = (\<lambda>x. f x = f k)" by auto
  ultimately show "filter (\<lambda>x. f k = f x) (sort_key f xs) = filter (\<lambda>x. f k = f x) ys"
    by simp
qed

lemma filter_key_short: "distinct (map f xs) \<Longrightarrow> length (filter (\<lambda>e. f e = k) xs) \<le> 1"
proof (induction xs)
  case Nil
  then show ?case by simp
next
  case (Cons a xs)
  show ?case
  proof (cases "f a = k")
    case True
    from Cons.prems have "f a \<notin> f ` set xs" by simp
    with True have "\<forall>x \<in> set xs. f x \<noteq> k" by blast
    then have "filter (\<lambda>e. f e = k) xs = []"
      by (simp add: filter_empty_conv)
    with True show ?thesis by simp
  next
    case False
    with Cons show ?thesis by simp
  qed
qed

lemma short_list_of_mset: "length xs \<le> 1 \<Longrightarrow> mset ys = mset xs \<Longrightarrow> ys = xs"
  by (cases xs; cases "tl xs") (auto simp: mset_single_iff_right)

lemma distinct_keys_same_order:
  assumes "mset ys = mset xs" and "distinct (map f xs)"
  shows "filter (\<lambda>e. f e = k) ys = filter (\<lambda>e. f e = k) xs"
proof -
  have "mset (filter (\<lambda>e. f e = k) ys) = mset (filter (\<lambda>e. f e = k) xs)"
    using assms(1) by simp
  with filter_key_short [OF assms(2)] show ?thesis
    by (rule short_list_of_mset)
qed

lemma sort_by_explicit: "sort_by = (\<lambda>e. (wall (ev_start e), ev_title e))"
  by (auto simp: sort_by_def)

lemma fold_line_filter:
  assumes "length b < 75" and "b \<noteq> []" and "hd b \<noteq> 32"
  shows "filter (\<lambda>x. x = b) (fold_line l) = filter (\<lambda>x. x = b) [l]"
proof (cases "length l > 75")
  case False
  then show ?thesis by (simp add: fold_line_short)
next
  case True
  have "x \<noteq> b" if "x \<in> set (fold_line l)" for x
  proof -
    have "fold_line l = hd (fold_line l) # tl (fold_line l)"
      using fold_line_nonempty by simp
    with that consider "x = hd (fold_line l)" | "x \<in> set (tl (fold_line l))"
      by (metis set_ConsD)
    then show ?thesis
    proof cases
      case 1
      then have "length x = 75" using True by (simp add: fold_line_hd)
      with assms(1) show ?thesis by auto
    next
      case 2
      then obtain r where "x = 32 # r" using fold_line_tl_space by blast
      with assms(2,3) show ?thesis by (cases b) auto
    qed
  qed
  then have "filter (\<lambda>x. x = b) (fold_line l) = []"
    by (auto simp: filter_empty_conv)
  moreover have "l \<noteq> b" using True assms(1) by auto
  ultimately show ?thesis by simp
qed

lemma folded_filter:
  assumes "length b < 75" and "b \<noteq> []" and "hd b \<noteq> 32"
  shows "filter (\<lambda>x. x = b) (concat (map fold_line ls)) = filter (\<lambda>x. x = b) ls"
  by (induction ls) (simp_all add: fold_line_filter [OF assms])

lemma begin_vevent_shape:
  "length (str ''BEGIN:VEVENT'') < 75 \<and> str ''BEGIN:VEVENT'' \<noteq> []
   \<and> hd (str ''BEGIN:VEVENT'') \<noteq> 32"
  by simp

lemma count_logical:
  "length (filter (\<lambda>l. l = str ''BEGIN:VEVENT'') (ics_lines lib course_id now events))
       = length events"
proof -
  have "str ''END:VCALENDAR'' \<noteq> str ''BEGIN:VEVENT''" by simp
  then have "filter (\<lambda>l. l = str ''BEGIN:VEVENT'') (ics_lines lib course_id now events)
      = filter (\<lambda>l. l = str ''BEGIN:VEVENT'')
          (concat (map (vevent_lines lib course_id now) (sort_key sort_by events)))"
    unfolding ics_lines_blocks
    by (simp del: str_Cons str_Nil add: header_no_begin_vevent)
  then show ?thesis
    by (simp only: count_blocks length_sort)
qed

lemma count_physical:
  "length (filter (\<lambda>l. l = str ''BEGIN:VEVENT'')
       (concat (map fold_line (ics_lines lib course_id now events))))
     = length events"
proof -
  have "filter (\<lambda>x. x = str ''BEGIN:VEVENT'')
          (concat (map fold_line (ics_lines lib course_id now events)))
        = filter (\<lambda>x. x = str ''BEGIN:VEVENT'') (ics_lines lib course_id now events)"
    using begin_vevent_shape by (intro folded_filter) blast+
  then show ?thesis by (simp only: count_logical)
qed

lemma same_keys_same_document:
  assumes "mset events' = mset events"
    and "\<And>w t. filter (\<lambda>e. wall (ev_start e) = w \<and> ev_title e = t) events'
             = filter (\<lambda>e. wall (ev_start e) = w \<and> ev_title e = t) events"
  shows "generate_ics lib course_id now events' = generate_ics lib course_id now events"
proof -
  have "filter (\<lambda>e. sort_by e = k) events' = filter (\<lambda>e. sort_by e = k) events" for k
    using assms(2) [of "fst k" "snd k"] by (simp add: sort_by_def prod_eq_iff)
  with assms(1) have "sort_key sort_by events' = sort_key sort_by events"
    by (rule sort_key_same_order)
  then show ?thesis by (simp add: generate_ics_def ics_lines_def)
qed

text \<open>
  Claim C8, amended. The lines of a calendar are the header, one block per event from
  \<^verbatim>\<open>BEGIN:VEVENT\<close> to \<^verbatim>\<open>END:VEVENT\<close>, and the footer; the document is these lines,
  folded, each ended by CR LF, and it has as many lines \<^verbatim>\<open>BEGIN:VEVENT\<close> as there are
  events, before the folding and after it. The blocks stand in the order of the stable
  sort of the events by the pair (start, title): of two blocks the earlier belongs to
  the event with the earlier start, or with the same start and a title that is not
  greater, and the events of one start and title keep the order of the input. For one
  course and one moment, two event lists with the same events give the same document
  when the events of each start and title stand in the same order in both; they do
  whenever no two events have the same start and title.
\<close>

theorem generate_ics_blocks_in_sorted_order:
  "ics_lines lib course_id now events
     = header_lines
       @ concat (map (vevent_lines lib course_id now)
           (sort_key (\<lambda>e. (wall (ev_start e), ev_title e)) events))
       @ [str ''END:VCALENDAR'']
   \<and> generate_ics lib course_id now events
       = join [13, 10] (concat (map fold_line (ics_lines lib course_id now events))) @ [13, 10]
   \<and> length (filter (\<lambda>l. l = str ''BEGIN:VEVENT'') (ics_lines lib course_id now events))
       = length events
   \<and> length (filter (\<lambda>l. l = str ''BEGIN:VEVENT'')
         (concat (map fold_line (ics_lines lib course_id now events))))
       = length events
   \<and> sorted_wrt (\<lambda>a b. wall (ev_start a) < wall (ev_start b)
          \<or> (wall (ev_start a) = wall (ev_start b) \<and> ev_title a \<le> ev_title b))
        (sort_key (\<lambda>e. (wall (ev_start e), ev_title e)) events)
   \<and> mset (sort_key (\<lambda>e. (wall (ev_start e), ev_title e)) events) = mset events
   \<and> filter (\<lambda>e. wall (ev_start e) = w \<and> ev_title e = t)
         (sort_key (\<lambda>e. (wall (ev_start e), ev_title e)) events)
       = filter (\<lambda>e. wall (ev_start e) = w \<and> ev_title e = t) events
   \<and> (mset events' = mset events
        \<and> (\<forall>w t. filter (\<lambda>e. wall (ev_start e) = w \<and> ev_title e = t) events'
                  = filter (\<lambda>e. wall (ev_start e) = w \<and> ev_title e = t) events)
        \<longrightarrow> generate_ics lib course_id now events' = generate_ics lib course_id now events)
   \<and> (mset events' = mset events
        \<and> distinct (map (\<lambda>e. (wall (ev_start e), ev_title e)) events)
        \<longrightarrow> generate_ics lib course_id now events' = generate_ics lib course_id now events)"
proof -
  have lines: "ics_lines lib course_id now events
     = header_lines
       @ concat (map (vevent_lines lib course_id now)
           (sort_key (\<lambda>e. (wall (ev_start e), ev_title e)) events))
       @ [str ''END:VCALENDAR'']"
    using ics_lines_blocks [of lib course_id now events] by (simp only: sort_by_explicit)
  have doc: "generate_ics lib course_id now events
       = join [13, 10] (concat (map fold_line (ics_lines lib course_id now events))) @ [13, 10]"
    by (simp add: generate_ics_def folded_lines_concat)
  have "sorted (map sort_by (sort_key sort_by events))" by simp
  then have ord: "sorted_wrt (\<lambda>a b. wall (ev_start a) < wall (ev_start b)
          \<or> (wall (ev_start a) = wall (ev_start b) \<and> ev_title a \<le> ev_title b))
        (sort_key (\<lambda>e. (wall (ev_start e), ev_title e)) events)"
    by (simp only: sorted_sort_by_explicit) (simp only: sort_by_explicit)
  have perm: "mset (sort_key (\<lambda>e. (wall (ev_start e), ev_title e)) events) = mset events"
    by simp
  have "filter (\<lambda>e. (wall (ev_start e), ev_title e) = (w, t))
         (sort_key (\<lambda>e. (wall (ev_start e), ev_title e)) events)
       = filter (\<lambda>e. (wall (ev_start e), ev_title e) = (w, t)) events"
    by (rule sort_key_stable)
  then have stable: "filter (\<lambda>e. wall (ev_start e) = w \<and> ev_title e = t)
         (sort_key (\<lambda>e. (wall (ev_start e), ev_title e)) events)
       = filter (\<lambda>e. wall (ev_start e) = w \<and> ev_title e = t) events"
    by simp
  have same: "generate_ics lib course_id now events' = generate_ics lib course_id now events"
    if "mset events' = mset events"
      and "\<forall>w t. filter (\<lambda>e. wall (ev_start e) = w \<and> ev_title e = t) events'
                  = filter (\<lambda>e. wall (ev_start e) = w \<and> ev_title e = t) events"
    using that by (intro same_keys_same_document) auto
  have dist: "generate_ics lib course_id now events' = generate_ics lib course_id now events"
    if p: "mset events' = mset events"
      and d: "distinct (map (\<lambda>e. (wall (ev_start e), ev_title e)) events)"
  proof (rule same_keys_same_document [OF p])
    fix w t
    have "filter (\<lambda>e. (wall (ev_start e), ev_title e) = (w, t)) events'
          = filter (\<lambda>e. (wall (ev_start e), ev_title e) = (w, t)) events"
      using p d by (rule distinct_keys_same_order)
    then show "filter (\<lambda>e. wall (ev_start e) = w \<and> ev_title e = t) events'
             = filter (\<lambda>e. wall (ev_start e) = w \<and> ev_title e = t) events"
      by simp
  qed
  from lines doc count_logical [of lib course_id now events]
    count_physical [of lib course_id now events] ord perm stable same dist
  show ?thesis by blast
qed

theorem generate_ics_blocks_in_sorted_order_witness:
  "mset [example_event (str ''2'') (str ''Boxing'') 5000000000 None,
         example_event (str ''1'') (str ''Aqua'') 9000000000 None]
     = mset [example_event (str ''1'') (str ''Aqua'') 9000000000 None,
             example_event (str ''2'') (str ''Boxing'') 5000000000 None]
   \<and> distinct (map (\<lambda>e. (wall (ev_start e), ev_title e))
        [example_event (str ''1'') (str ''Aqua'') 9000000000 None,
         example_event (str ''2'') (str ''Boxing'') 5000000000 None])
   \<and> ics_lines (example_lib []) 53 0
        [example_event (str ''1'') (str ''Aqua'') 9000000000 None,
         example_event (str ''2'') (str ''Boxing'') 5000000000 None]
     = header_lines
       @ vevent_lines (example_lib []) 53 0
           (example_event (str ''2'') (str ''Boxing'') 5000000000 None)
       @ vevent_lines (example_lib []) 53 0
           (example_event (str ''1'') (str ''Aqua'') 9000000000 None)
       @ [str ''END:VCALENDAR'']
   \<and> generate_ics (example_lib []) 53 0
        [example_event (str ''2'') (str ''Boxing'') 5000000000 None,
         example_event (str ''1'') (str ''Aqua'') 9000000000 None]
     = generate_ics (example_lib []) 53 0
        [example_event (str ''1'') (str ''Aqua'') 9000000000 None,
         example_event (str ''2'') (str ''Boxing'') 5000000000 None]"
proof -
  have h1: "mset [example_event (str ''2'') (str ''Boxing'') 5000000000 None,
         example_event (str ''1'') (str ''Aqua'') 9000000000 None]
     = mset [example_event (str ''1'') (str ''Aqua'') 9000000000 None,
             example_event (str ''2'') (str ''Boxing'') 5000000000 None]"
    by (simp add: add_mset_commute)
  have h2: "distinct (map (\<lambda>e. (wall (ev_start e), ev_title e))
        [example_event (str ''1'') (str ''Aqua'') 9000000000 None,
         example_event (str ''2'') (str ''Boxing'') 5000000000 None])"
    by (simp add: example_event_def)
  have order: "sort_key (\<lambda>e. (wall (ev_start e), ev_title e))
        [example_event (str ''1'') (str ''Aqua'') 9000000000 None,
         example_event (str ''2'') (str ''Boxing'') 5000000000 None]
      = [example_event (str ''2'') (str ''Boxing'') 5000000000 None,
         example_event (str ''1'') (str ''Aqua'') 9000000000 None]"
    by (simp add: example_event_def)
  note t = generate_ics_blocks_in_sorted_order [of "example_lib []" 53 0
        "[example_event (str ''1'') (str ''Aqua'') 9000000000 None,
          example_event (str ''2'') (str ''Boxing'') 5000000000 None]"
        9000000000 "str ''Aqua''"
        "[example_event (str ''2'') (str ''Boxing'') 5000000000 None,
          example_event (str ''1'') (str ''Aqua'') 9000000000 None]"]
  from t have lines: "ics_lines (example_lib []) 53 0
        [example_event (str ''1'') (str ''Aqua'') 9000000000 None,
         example_event (str ''2'') (str ''Boxing'') 5000000000 None]
     = header_lines
       @ vevent_lines (example_lib []) 53 0
           (example_event (str ''2'') (str ''Boxing'') 5000000000 None)
       @ vevent_lines (example_lib []) 53 0
           (example_event (str ''1'') (str ''Aqua'') 9000000000 None)
       @ [str ''END:VCALENDAR'']"
    unfolding order by simp
  from t h1 h2 have same: "generate_ics (example_lib []) 53 0
        [example_event (str ''2'') (str ''Boxing'') 5000000000 None,
         example_event (str ''1'') (str ''Aqua'') 9000000000 None]
     = generate_ics (example_lib []) 53 0
        [example_event (str ''1'') (str ''Aqua'') 9000000000 None,
         example_event (str ''2'') (str ''Boxing'') 5000000000 None]"
    by blast
  from h1 h2 lines same show ?thesis by blast
qed

lemma digits_small: "n < 10 \<Longrightarrow> digits n = [48 + n]"
  by (subst digits.simps) simp

lemma digits_large: "\<not> n < 10 \<Longrightarrow> digits n = digits (n div 10) @ [48 + n mod 10]"
  by (subst digits.simps) simp

text \<open>
  Claim C8 as stated fails for permutations in general: two events with the same start
  and the same title but the ids 1 and 2 give, in the two orders, two different
  documents.
\<close>

theorem same_start_and_title_keep_input_order:
  "mset [example_event (str ''1'') (str ''Yoga'') 0 None,
         example_event (str ''2'') (str ''Yoga'') 0 None]
     = mset [example_event (str ''2'') (str ''Yoga'') 0 None,
             example_event (str ''1'') (str ''Yoga'') 0 None]
   \<and> generate_ics (example_lib []) 53 0
        [example_event (str ''1'') (str ''Yoga'') 0 None,
         example_event (str ''2'') (str ''Yoga'') 0 None]
     \<noteq> generate_ics (example_lib []) 53 0
        [example_event (str ''2'') (str ''Yoga'') 0 None,
         example_event (str ''1'') (str ''Yoga'') 0 None]"
  by (simp add: add_mset_commute generate_ics_def ics_lines_def folded_lines_def Let_def
      vevent_lines_def vtz_europe_berlin_def desc_parts_def if_present_def fmt_local_def
      fmt_dt_utc_def example_lib_def example_event_def sort_by_def escape_ics_esc_spec
      esc1_def decimal_def digits_small digits_large fold_line_short)

section \<open>Saving and loading the cache\<close>

lemma load_after_save:
  "save_cache lib d events ics_text = (d', None) \<Longrightarrow>
   fst (load_cache lib d') = Some (universal_newlines ics_text)"
  by (auto simp: save_cache_def load_cache_def read_text_def Let_def split: if_splits)

lemma universal_newlines_no_CR: "13 \<notin> set (universal_newlines s)"
  by (induction s rule: universal_newlines.induct) auto

lemma generate_ics_has_CR: "13 \<in> set (generate_ics lib course_id now events)"
  by (simp add: generate_ics_def)

lemma generated_calendar_not_restored:
  "save_cache lib d events (generate_ics lib course_id now evs) = (d', None) \<Longrightarrow>
   fst (load_cache lib d') \<noteq> Some (generate_ics lib course_id now evs)"
  using universal_newlines_no_CR [of "generate_ics lib course_id now evs"]
    generate_ics_has_CR [of lib course_id now evs]
  by (auto dest!: load_after_save)

text \<open>
  Claim C9. \<^verbatim>\<open>load_cache\<close> reads the calendar file with \<^verbatim>\<open>read_text\<close>, which gives
  every CR LF as LF, while \<^verbatim>\<open>generate_ics\<close> ends every line with CR LF: after
  \<^verbatim>\<open>save_cache\<close> of a generated calendar, \<^verbatim>\<open>load_cache\<close> never returns the text that
  was saved (\<open>generated_calendar_not_restored\<close>). For the calendar without events
  of course 53 it returns the lines joined and ended by LF, where the saved text has
  CR LF.
\<close>

theorem load_cache_changes_line_endings:
  "load_cache (example_lib [])
     (fst (save_cache (example_lib []) \<lparr>CACHE_JSON = Missing, CACHE_ICS = Missing\<rparr> []
            (generate_ics (example_lib []) 53 0 [])))
   = (Some (join [10] (header_lines @ [str ''END:VCALENDAR'']) @ [10]), Some [])
   \<and> generate_ics (example_lib []) 53 0 []
       = join [13, 10] (header_lines @ [str ''END:VCALENDAR'']) @ [13, 10]"
  by (simp add: save_cache_def load_cache_def read_text_def json_payload_def encodable_def
      generate_ics_def ics_lines_def folded_lines_def Let_def header_lines_def
      vtz_europe_berlin_def fold_line_short)

end
